theory Spec2Isabelle
  imports Complex_Main
begin

section \<open>JavaScript values used by the 3D preview component\<close>

text \<open>
  The component under study is \<open>ModelPreview\<close> (the newer copy of the file, the one with
  \<open>sceneGeneration\<close> and the map underlay). Numbers are modelled as reals: every
  constant of the source is written as the source writes it, and NaN and the infinities of
  IEEE arithmetic are outside the model, except for the zoom level of the map underlay,
  where the logarithm of a number that is not positive is modelled. Strings are \<open>char list\<close>; \<open>toLowerCase\<close> and
  \<open>trim\<close> are modelled on ASCII letters and ASCII white space.
\<close>

datatype jsError = TypeError

text \<open>\<open>v || d\<close> on an optional number: \<open>undefined\<close> and \<open>0\<close> are falsy.\<close>

definition orNum :: "real option \<Rightarrow> real \<Rightarrow> real" where
  "orNum v d = (case v of None \<Rightarrow> d | Some r \<Rightarrow> if r = 0 then d else r)"

text \<open>\<open>v || d\<close> on an optional string: \<open>undefined\<close> and the empty string are falsy.\<close>

definition orStr :: "string option \<Rightarrow> string \<Rightarrow> string" where
  "orStr v d = (case v of None \<Rightarrow> d | Some s \<Rightarrow> if s = [] then d else s)"

definition lowerChar :: "char \<Rightarrow> char" where
  "lowerChar c =
     (let n = (of_char c :: nat) in if 65 \<le> n \<and> n \<le> 90 then char_of (n + 32) else c)"

definition toLowerCase :: "string \<Rightarrow> string" where
  "toLowerCase s = map lowerChar s"

definition isSpace :: "char \<Rightarrow> bool" where
  "isSpace c = ((of_char c :: nat) \<in> {9, 10, 11, 12, 13, 32})"

definition trim :: "string \<Rightarrow> string" where
  "trim s = rev (dropWhile isSpace (rev (dropWhile isSpace s)))"

fun startsWith :: "string \<Rightarrow> string \<Rightarrow> bool" where
  "startsWith s [] = True"
| "startsWith [] (p # ps) = False"
| "startsWith (c # cs) (p # ps) = (c = p \<and> startsWith cs ps)"

text \<open>\<open>s.includes(sub)\<close>: \<open>sub\<close> occurs in \<open>s\<close> as a contiguous substring.\<close>

fun includesStr :: "string \<Rightarrow> string \<Rightarrow> bool" where
  "includesStr [] sub = (sub = [])"
| "includesStr (c # cs) sub = (startsWith (c # cs) sub \<or> includesStr cs sub)"

section \<open>Point instances: classification and synthesis\<close>

text \<open>
  A node of the API payload; every field is optional (\<open>instanceType\<close> is read through the
  index signature of the interface).
\<close>

record node =
  node_instanceType :: "string option"
  node_type :: "string option"
  node_x :: "real option"
  node_y :: "real option"
  node_z :: "real option"
  node_scale :: "real option"

type_synonym vec3 = "real \<times> real \<times> real"

record instanceItem =
  position :: vec3
  scale :: vec3
  color :: string

type_synonym instances = "string \<rightharpoonup> instanceItem list"

definition initialInstances :: instances where
  "initialInstances =
     [''tree_trunk'' \<mapsto> [], ''tree_foliage'' \<mapsto> [], ''shrubbery'' \<mapsto> [],
      ''utilityPole'' \<mapsto> [], ''bench'' \<mapsto> [], ''default'' \<mapsto> []]"

text \<open>\<open>COLORS.infrastructure\<close>, as a lookup that is \<open>undefined\<close> on any other key.\<close>

definition infrastructureColors :: "string \<rightharpoonup> string" where
  "infrastructureColors =
     map_of [(''tree'', ''#228B22''), (''shrubbery'', ''#8FBC8F''), (''bench'', ''#A0522D''),
             (''utilityPole'', ''#696969''), (''default'', ''#AAAAAA'')]"

definition knownNonTreeTypes :: "string list" where
  "knownNonTreeTypes =
     [''shrubbery'', ''utilitypole'', ''bench'', ''hydrant'', ''rock'', ''illustration'',
      ''adcolumn'', ''ac_unit'']"

definition normalizeType :: "string \<Rightarrow> string" where
  "normalizeType rawType = trim (toLowerCase rawType)"

definition isTree :: "string \<Rightarrow> bool" where
  "isTree nodeType =
     (includesStr nodeType ''tree'' \<or> nodeType \<notin> set knownNonTreeTypes)"

text \<open>The batch key chosen in the branch of the known non-tree types.\<close>

definition category :: "string \<Rightarrow> string" where
  "category nodeType =
     (if nodeType \<in> set [''shrubbery'', ''utilitypole'', ''bench'']
      then (if nodeType = ''utilitypole'' then ''utilityPole'' else nodeType)
      else ''default'')"

datatype nodeClass = TreeClass | Batch string

definition classify :: "string \<Rightarrow> nodeClass" where
  "classify rawType =
     (let nodeType = normalizeType rawType
      in if isTree nodeType then TreeClass else Batch (category nodeType))"

text \<open>\<open>instances[key].push(item)\<close>; a key that is not in the table would raise.\<close>

definition push :: "instances \<Rightarrow> string \<Rightarrow> instanceItem \<Rightarrow> jsError + instances" where
  "push insts key item =
     (case insts key of
        None \<Rightarrow> Inl TypeError
      | Some items \<Rightarrow> Inr (insts(key \<mapsto> items @ [item])))"

text \<open>\<open>node.instanceType || node.type || 'default'\<close>.\<close>

definition rawTypeOf :: "node \<Rightarrow> string" where
  "rawTypeOf nd = orStr (node_instanceType nd) (orStr (node_type nd) ''default'')"

text \<open>
  \<open>COLORS.infrastructure[nodeType] || COLORS.infrastructure[rawType] ||
  COLORS.infrastructure.default\<close>.
\<close>

definition infraColor :: "string \<Rightarrow> string \<Rightarrow> string" where
  "infraColor nodeType rawType =
     (case infrastructureColors nodeType of
        Some c \<Rightarrow> c
      | None \<Rightarrow>
          (case infrastructureColors rawType of
             Some c \<Rightarrow> c
           | None \<Rightarrow> ''#AAAAAA''))"

text \<open>The body of \<open>geomData.nodes.forEach\<close>.\<close>

definition processNode :: "instances \<Rightarrow> node \<Rightarrow> jsError + instances" where
  "processNode insts nd =
     (let x = orNum (node_x nd) 0;
          y = orNum (node_y nd) 0;
          z = orNum (node_z nd) 0;
          scale = orNum (node_scale nd) 1;
          rawType = rawTypeOf nd;
          nodeType = normalizeType rawType
      in if isTree nodeType then
           (let treeScale = max scale 1
            in case push insts ''tree_trunk''
                      \<lparr>position = (x, y, z),
                       scale = (treeScale * 0.0625, treeScale * 0.125, treeScale * 0.0625),
                       color = ''#5D4037''\<rparr> of
                 Inl e \<Rightarrow> Inl e
               | Inr insts1 \<Rightarrow>
                   push insts1 ''tree_foliage''
                     \<lparr>position = (x, y + treeScale * 0.156, z),
                      scale = (treeScale * 0.156, treeScale * 0.156, treeScale * 0.156),
                      color = ''#228B22''\<rparr>)
         else
           (let finalScale = max scale 1 * 0.5
            in push insts (category nodeType)
                 \<lparr>position = (x, y, z),
                  scale = (finalScale, finalScale, finalScale),
                  color = infraColor nodeType rawType\<rparr>))"

text \<open>The six batch keys of the table are present.\<close>

definition hasBatchKeys :: "instances \<Rightarrow> bool" where
  "hasBatchKeys insts =
     (\<forall>k \<in> set [''tree_trunk'', ''tree_foliage'', ''shrubbery'', ''utilityPole'', ''bench'',
                  ''default'']. insts k \<noteq> None)"

fun processNodes :: "instances \<Rightarrow> node list \<Rightarrow> jsError + instances" where
  "processNodes insts [] = Inr insts"
| "processNodes insts (nd # nds) =
     (case processNode insts nd of
        Inl e \<Rightarrow> Inl e
      | Inr insts' \<Rightarrow> processNodes insts' nds)"

section \<open>Layer visibility\<close>

text \<open>
  The \<open>surface\<close> entry of the \<open>layerVisibility\<close> state is one object that holds the
  group flag under the key \<open>_group\<close> beside the subtype flags; reading it at a key goes
  through \<open>surfaceLookup\<close>.
\<close>

record surfaceVisibility =
  sv_group :: bool
  sv_subtypes :: "string \<rightharpoonup> bool"

definition surfaceLookup :: "surfaceVisibility \<Rightarrow> string \<Rightarrow> bool option" where
  "surfaceLookup sv key = (if key = ''_group'' then Some (sv_group sv) else sv_subtypes sv key)"

record layerVisibility =
  buildings :: bool
  surface :: surfaceVisibility
  vegetation :: bool
  infrastructure :: bool
  barriers :: bool
  topography :: bool

text \<open>
  A scene node under a layer group: its \<open>userData.subtype\<close>, its own \<open>visible\<close> flag and
  the identity of the geometry buffer it draws.
\<close>

record sceneChild =
  userData_subtype :: "string option"
  child_visible :: bool
  child_geometry :: nat

record layerGroup =
  group_visible :: bool
  children :: "sceneChild list"

type_synonym layerGroups = "string \<rightharpoonup> layerGroup"

datatype visibilityEntry = Flag bool | SurfaceFlags surfaceVisibility

text \<open>\<open>Object.entries(layerVisibility)\<close>, in the order of the state's keys.\<close>

definition entries :: "layerVisibility \<Rightarrow> (string \<times> visibilityEntry) list" where
  "entries lv =
     [(''buildings'', Flag (buildings lv)),
      (''surface'', SurfaceFlags (surface lv)),
      (''vegetation'', Flag (vegetation lv)),
      (''infrastructure'', Flag (infrastructure lv)),
      (''barriers'', Flag (barriers lv)),
      (''topography'', Flag (topography lv))]"

definition isSubVisible :: "surfaceVisibility \<Rightarrow> sceneChild \<Rightarrow> bool" where
  "isSubVisible visible child =
     (let type = orStr (userData_subtype child) ''default''
      in case surfaceLookup visible type of Some b \<Rightarrow> b | None \<Rightarrow> True)"

text \<open>
  One turn of the \<open>forEach\<close> of the visibility effect. An object that reaches the boolean
  branch would be assigned as it is, and an object is truthy.
\<close>

fun applyEntry :: "layerGroups \<Rightarrow> string \<times> visibilityEntry \<Rightarrow> layerGroups" where
  "applyEntry groups (key, visible) =
     (case groups key of
        None \<Rightarrow> groups
      | Some grp \<Rightarrow>
          (case visible of
             SurfaceFlags sv \<Rightarrow>
               (if key = ''surface''
                then groups(key \<mapsto>
                       \<lparr>group_visible = sv_group sv,
                        children =
                          map (\<lambda>child. child\<lparr>child_visible := isSubVisible sv child\<rparr>)
                            (children grp)\<rparr>)
                else groups(key \<mapsto> grp\<lparr>group_visible := True\<rparr>))
           | Flag b \<Rightarrow> groups(key \<mapsto> grp\<lparr>group_visible := b\<rparr>)))"

definition applyVisibility :: "layerVisibility \<Rightarrow> layerGroups \<Rightarrow> layerGroups" where
  "applyVisibility lv groups = foldl applyEntry groups (entries lv)"

text \<open>
  The renderer draws an object only when the object and every ancestor of it has
  \<open>visible\<close> set; the layer groups hang under the mesh group and the scene, which are
  never hidden.
\<close>

definition effectivelyVisible :: "layerGroup \<Rightarrow> sceneChild \<Rightarrow> bool" where
  "effectivelyVisible grp child = (group_visible grp \<and> child_visible child)"

definition visiblePrimitives :: "layerGroups \<Rightarrow> string \<Rightarrow> sceneChild list" where
  "visiblePrimitives groups key =
     (case groups key of
        None \<Rightarrow> []
      | Some grp \<Rightarrow> filter (effectivelyVisible grp) (children grp))"

text \<open>What a layer group holds, its visibility flags left out.\<close>

definition layerGeometry :: "layerGroups \<Rightarrow> string \<Rightarrow> (string option \<times> nat) list option" where
  "layerGeometry groups key =
     map_option (\<lambda>grp. map (\<lambda>c. (userData_subtype c, child_geometry c)) (children grp))
       (groups key)"

text \<open>
  The composition as the specification words it, read off the fields of the visibility
  state: the group flag and the flag stored for the subtype, which counts as set when no
  flag is stored for it.
\<close>

definition spec_surfaceVisible :: "layerVisibility \<Rightarrow> string \<Rightarrow> bool" where
  "spec_surfaceVisible lv subtype =
     (sv_group (surface lv)
      \<and> (case sv_subtypes (surface lv) subtype of None \<Rightarrow> True | Some flag \<Rightarrow> flag))"

datatype layerId = Buildings | Surface | Vegetation | Infrastructure | Barriers | Topography

fun layerKey :: "layerId \<Rightarrow> string" where
  "layerKey Buildings = ''buildings''"
| "layerKey Surface = ''surface''"
| "layerKey Vegetation = ''vegetation''"
| "layerKey Infrastructure = ''infrastructure''"
| "layerKey Barriers = ''barriers''"
| "layerKey Topography = ''topography''"

text \<open>The flag that the eye button of a layer shows.\<close>

definition layerFlag :: "layerVisibility \<Rightarrow> layerId \<Rightarrow> bool" where
  "layerFlag lv L =
     (case L of
        Buildings \<Rightarrow> buildings lv
      | Surface \<Rightarrow> sv_group (surface lv)
      | Vegetation \<Rightarrow> vegetation lv
      | Infrastructure \<Rightarrow> infrastructure lv
      | Barriers \<Rightarrow> barriers lv
      | Topography \<Rightarrow> topography lv)"

text \<open>The click handler of a layer's eye button.\<close>

fun toggleLayer :: "layerVisibility \<Rightarrow> layerId \<Rightarrow> layerVisibility" where
  "toggleLayer prev Surface =
     prev\<lparr>surface := (surface prev)\<lparr>sv_group := \<not> sv_group (surface prev)\<rparr>\<rparr>"
| "toggleLayer prev Buildings = prev\<lparr>buildings := \<not> buildings prev\<rparr>"
| "toggleLayer prev Vegetation = prev\<lparr>vegetation := \<not> vegetation prev\<rparr>"
| "toggleLayer prev Infrastructure = prev\<lparr>infrastructure := \<not> infrastructure prev\<rparr>"
| "toggleLayer prev Barriers = prev\<lparr>barriers := \<not> barriers prev\<rparr>"
| "toggleLayer prev Topography = prev\<lparr>topography := \<not> topography prev\<rparr>"

text \<open>
  The click handler of a surface subtype button; \<open>!undefined\<close> is \<open>true\<close>, and writing
  the key \<open>_group\<close> writes the group flag.
\<close>

definition toggleSubtype :: "layerVisibility \<Rightarrow> string \<Rightarrow> layerVisibility" where
  "toggleSubtype prev subKey =
     (let flag = \<not> (case surfaceLookup (surface prev) subKey of Some b \<Rightarrow> b | None \<Rightarrow> False)
      in if subKey = ''_group''
         then prev\<lparr>surface := (surface prev)\<lparr>sv_group := flag\<rparr>\<rparr>
         else prev\<lparr>surface :=
                (surface prev)\<lparr>sv_subtypes := (sv_subtypes (surface prev))(subKey \<mapsto> flag)\<rparr>\<rparr>)"

section \<open>Scene bounds\<close>

text \<open>
  \<open>new THREE.Box3().setFromObject(meshGroup)\<close>. The mesh group is modelled by the world
  positions of the vertices under it; with no vertex the box stays empty, which the
  library stores as \<open>min = +\<infinity>\<close>, \<open>max = -\<infinity>\<close> and the model as \<open>EmptyBox\<close>.
  \<open>getCenter\<close> and \<open>getSize\<close> answer the zero vector on an empty box.
\<close>

datatype box3 = EmptyBox | Box vec3 vec3

fun expandByPoint :: "box3 \<Rightarrow> vec3 \<Rightarrow> box3" where
  "expandByPoint EmptyBox p = Box p p"
| "expandByPoint (Box (x0, y0, z0) (x1, y1, z1)) (x, y, z) =
     Box (min x0 x, min y0 y, min z0 z) (max x1 x, max y1 y, max z1 z)"

definition setFromObject :: "vec3 list \<Rightarrow> box3" where
  "setFromObject meshGroup = foldl expandByPoint EmptyBox meshGroup"

fun isEmpty :: "box3 \<Rightarrow> bool" where
  "isEmpty EmptyBox = True"
| "isEmpty (Box (x0, y0, z0) (x1, y1, z1)) = (x1 < x0 \<or> y1 < y0 \<or> z1 < z0)"

fun getCenter :: "box3 \<Rightarrow> vec3" where
  "getCenter EmptyBox = (0, 0, 0)"
| "getCenter (Box (x0, y0, z0) (x1, y1, z1)) =
     (if isEmpty (Box (x0, y0, z0) (x1, y1, z1)) then (0, 0, 0)
      else ((x0 + x1) * 0.5, (y0 + y1) * 0.5, (z0 + z1) * 0.5))"

fun getSize :: "box3 \<Rightarrow> vec3" where
  "getSize EmptyBox = (0, 0, 0)"
| "getSize (Box (x0, y0, z0) (x1, y1, z1)) =
     (if isEmpty (Box (x0, y0, z0) (x1, y1, z1)) then (0, 0, 0)
      else (x1 - x0, y1 - y0, z1 - z0))"

section \<open>The state of the preview component\<close>

record climateSample =
  temperature :: real
  windSpeed :: real
  windDirection :: real

record climateData =
  current :: climateSample
  hourly :: "climateSample list"

record sunPosition =
  altitude :: real
  azimuth :: real

text \<open>
  \<open>SunCalc.getPosition(date, lat, lon)\<close> with the date set to the given hours and
  minutes of today: an external library, taken as a parameter.
\<close>

type_synonym sunCalc = "int \<Rightarrow> int \<Rightarrow> real \<Rightarrow> real \<Rightarrow> sunPosition"

text \<open>
  What a helper group holds. Coordinates are left out (on an empty box they are infinite
  or NaN); a path line keeps the sampled hours it was built from, an arrow its grid cell
  and the wind direction in degrees, a tile its zoom level and tile indices.
\<close>

datatype part =
    CompassGroup "part list"
  | Ring
  | CardinalLine
  | Label string
  | PathLine "real list"
  | SunBall
  | Beam
  | Arrow nat nat real
  | Tile int int int

record helperObject =
  visible :: bool
  parts :: "part list"

record sunLight =
  lightPosition :: vec3
  lightTarget :: vec3
  castShadow :: bool
  shadowCamSize :: real
  shadowNear :: real
  shadowFar :: real

text \<open>
  A climate request in flight. The request of the source carries no tag at all;
  \<open>issuedFor\<close> is a ghost field that records the scene generation of the geometry load
  that issued it, so that staleness can be stated.
\<close>

record climateFetch =
  fetchLat :: real
  fetchLon :: real
  issuedFor :: nat

text \<open>
  The refs and the state of the component. \<open>scene\<close> is \<open>sceneRef.current\<close>: the helper
  groups among the children of the scene, by identity; \<open>objects\<close> is the heap of the
  helper groups created so far. \<open>rendererSize\<close> and \<open>cameraAspect\<close> are \<open>None\<close> while
  \<open>rendererRef.current\<close> and \<open>cameraRef.current\<close> are null.
\<close>

record viewer =
  scene :: "nat list option"
  meshGroup :: "vec3 list option"
  objects :: "nat \<rightharpoonup> helperObject"
  nextId :: nat
  solarHelperRef :: "nat option"
  windHelperRef :: "nat option"
  mapGroupRef :: "nat option"
  sunLightRef :: "sunLight option"
  background :: "string \<times> string"
  consoleWarnings :: "int list"
  rendererSize :: "(real \<times> real) option"
  cameraAspect :: "real option"
  sceneGeneration :: nat
  climateData :: "climateData option"
  pendingFetches :: "climateFetch list"

text \<open>\<open>sceneRef.current.remove(ref.current); ref.current = null\<close>, for the scene part.\<close>

definition removeFromScene :: "nat option \<Rightarrow> viewer \<Rightarrow> viewer" where
  "removeFromScene ref st =
     (case ref of
        None \<Rightarrow> st
      | Some h \<Rightarrow> st\<lparr>scene := map_option (removeAll h) (scene st)\<rparr>)"

text \<open>\<open>new THREE.Group()\<close> filled with the parts, then \<open>sceneRef.current.add(group)\<close>.\<close>

definition addToScene :: "part list \<Rightarrow> viewer \<Rightarrow> nat \<times> viewer" where
  "addToScene ps st =
     (let h = nextId st
      in (h, st\<lparr>objects := (objects st)(h \<mapsto> \<lparr>visible = True, parts = ps\<rparr>),
               nextId := h + 1,
               scene := map_option (\<lambda>cs. cs @ [h]) (scene st)\<rparr>))"

text \<open>\<open>date.setHours(Math.floor(h)); date.setMinutes((h % 1) * 60)\<close>, for \<open>h \<ge> 0\<close>.\<close>

definition clockOf :: "real \<Rightarrow> int \<times> int" where
  "clockOf h = (\<lfloor>h\<rfloor>, \<lfloor>(h - of_int \<lfloor>h\<rfloor>) * 60\<rfloor>)"

definition sunAt :: "sunCalc \<Rightarrow> real \<Rightarrow> real \<Rightarrow> real \<Rightarrow> sunPosition" where
  "sunAt getPosition lat lon h = (case clockOf h of (hh, mm) \<Rightarrow> getPosition hh mm lat lon)"

section \<open>Environmental overlays\<close>

definition maxDim3 :: "vec3 \<Rightarrow> real" where
  "maxDim3 v = (case v of (sx, sy, sz) \<Rightarrow> max (max sx sy) sz)"

text \<open>
  The sun-position effect. It moves the light, sets the shadow camera and the background
  gradient (a pair of colours); it never adds an object to the scene.
\<close>

definition sunEffect ::
  "sunCalc \<Rightarrow> bool \<Rightarrow> bool \<Rightarrow> real \<Rightarrow> (real \<times> real) option \<Rightarrow> viewer \<Rightarrow> viewer" where
  "sunEffect getPosition isSunStudyEnabled showDefaultShadows timeOfDay origin st =
     (case (sunLightRef st, meshGroup st) of
        (Some light, Some mg) \<Rightarrow>
          (let box = setFromObject mg;
               center = getCenter box;
               maxDim = maxDim3 (getSize box);
               camSize = maxDim * 0.8
           in if \<not> isSunStudyEnabled then
                (case center of (cx, cy, cz) \<Rightarrow>
                   st\<lparr>sunLightRef :=
                        Some (light\<lparr>lightPosition := (cx + 100, cy + 200, cz + 50),
                                    lightTarget := center,
                                    castShadow := showDefaultShadows,
                                    shadowCamSize := camSize\<rparr>),
                      background :=
                        (if scene st = None then background st
                         else (''#3b82f6'', ''#e0f2fe''))\<rparr>)
              else
                (case origin of
                   None \<Rightarrow> st\<lparr>sunLightRef := Some (light\<lparr>castShadow := True\<rparr>)\<rparr>
                 | Some (lat, lon) \<Rightarrow>
                     (let sunPos = sunAt getPosition lat lon timeOfDay;
                          phi = pi / 2 - altitude sunPos;
                          theta = azimuth sunPos;
                          r = maxDim * 1.5;
                          x = - r * sin phi * sin theta;
                          y = r * cos phi;
                          z = r * sin phi * cos theta;
                          isNight = altitude sunPos < - 0.1;
                          isDusk = (altitude sunPos < 0.1 \<and> altitude sunPos \<ge> - 0.1)
                      in case center of (cx, cy, cz) \<Rightarrow>
                           st\<lparr>sunLightRef :=
                                Some (light\<lparr>lightPosition := (cx + x, cy + y, cz + z),
                                            lightTarget := center,
                                            castShadow := True,
                                            shadowCamSize := camSize,
                                            shadowNear := 10,
                                            shadowFar := r * 3\<rparr>),
                              background :=
                                (if scene st = None then background st
                                 else if isNight then (''#0f172a'', ''#1e293b'')
                                 else if isDusk then (''#4f46e5'', ''#fcd34d'')
                                 else (''#3b82f6'', ''#e0f2fe''))\<rparr>)))
      | _ \<Rightarrow> st)"

text \<open>
  The sampling loop of the solar arc: \<open>for (let h = 4; h <= 20; h += 0.25)\<close>, keeping the
  hour of every sample that passes the altitude test. \<open>pos\<close> is the sun position at an
  hour of the day.
\<close>

function pathLoop :: "(real \<Rightarrow> sunPosition) \<Rightarrow> real \<Rightarrow> real list \<Rightarrow> real list" where
  "pathLoop pos h pathPoints =
     (if h \<le> 20
      then pathLoop pos (h + 0.25)
             (if altitude (pos h) > - 0.1 then pathPoints @ [h] else pathPoints)
      else pathPoints)"
  by pat_completeness auto
termination
proof (relation "measure (\<lambda>(pos, h, pathPoints). nat (\<lfloor>(20 - h) * 4\<rfloor> + 1))")
  show "wf (measure (\<lambda>(pos, h, pathPoints). nat (\<lfloor>(20 - h) * 4\<rfloor> + 1)))"
    by simp
next
  fix pos :: "real \<Rightarrow> sunPosition" and h :: real and pathPoints :: "real list"
  assume le: "h \<le> 20"
  have eq: "(20 - (h + 0.25)) * 4 = (20 - h) * 4 - 1"
    by (simp add: algebra_simps)
  have fl: "\<lfloor>(20 - h) * 4 - 1\<rfloor> = \<lfloor>(20 - h) * 4\<rfloor> - 1"
    by (rule floor_diff_one)
  have nonneg: "0 \<le> \<lfloor>(20 - h) * 4\<rfloor>"
    using le by simp
  have lt: "nat (\<lfloor>(20 - (h + 0.25)) * 4\<rfloor> + 1) < nat (\<lfloor>(20 - h) * 4\<rfloor> + 1)"
    unfolding eq fl using nonneg by linarith
  show "((pos, h + 0.25, if - 0.1 < altitude (pos h) then pathPoints @ [h] else pathPoints),
         (pos, h, pathPoints))
        \<in> measure (\<lambda>(pos, h, pathPoints). nat (\<lfloor>(20 - h) * 4\<rfloor> + 1))"
    unfolding in_measure prod.case by (rule lt)
qed

declare pathLoop.simps [simp del]

text \<open>The 65 sampled hours 4:00, 4:15, ..., 20:00.\<close>

definition sampleHours :: "real list" where
  "sampleHours = map (\<lambda>k. 4 + real k / 4) [0..<65]"

text \<open>A sun that stands at the cutoff altitude all day, as an input for the sampling.\<close>

definition cutoffSun :: sunCalc where
  "cutoffSun hh mm lat lon = \<lparr>altitude = - 0.1, azimuth = 0\<rparr>"

text \<open>
  The solar-path effect: the old helper is removed first; then, unless the toggle is off
  or the origin is absent, a compass (three rings, two cardinal lines, four labels), the
  arc when more than one sample was kept, the sun ball and the beam are added as one
  group.
\<close>

definition solarPathEffect ::
  "sunCalc \<Rightarrow> bool \<Rightarrow> real \<Rightarrow> (real \<times> real) option \<Rightarrow> viewer \<Rightarrow> viewer" where
  "solarPathEffect getPosition showSolarPath timeOfDay origin st =
     (case (scene st, meshGroup st) of
        (Some sc, Some mg) \<Rightarrow>
          (let st1 = (removeFromScene (solarHelperRef st) st)\<lparr>solarHelperRef := None\<rparr>
           in case origin of
                None \<Rightarrow> st1
              | Some (lat, lon) \<Rightarrow>
                  if \<not> showSolarPath then st1
                  else
                    (let compassGroup =
                           CompassGroup ([Ring, Ring, Ring] @ [CardinalLine, CardinalLine]
                                         @ map Label [''N'', ''S'', ''E'', ''W'']);
                         pathPoints = pathLoop (sunAt getPosition lat lon) 4 [];
                         grp = [compassGroup]
                               @ (if length pathPoints > 1 then [PathLine pathPoints] else [])
                               @ [SunBall, Beam]
                     in case addToScene grp st1 of
                          (h, st2) \<Rightarrow> st2\<lparr>solarHelperRef := Some h\<rparr>))
      | _ \<Rightarrow> st)"

text \<open>\<open>Math.round\<close> and the remainder operator \<open>%\<close> on integers.\<close>

definition jsRound :: "real \<Rightarrow> int" where
  "jsRound x = \<lfloor>x + 0.5\<rfloor>"

definition jsRem :: "int \<Rightarrow> int \<Rightarrow> int" where
  "jsRem a b = sgn a * (\<bar>a\<bar> mod \<bar>b\<bar>)"

text \<open>
  The wind effect: it needs the scene, the climate data and the mesh group, and reads
  neither the origin nor whether the bounding box is empty.
\<close>

definition windEffect :: "bool \<Rightarrow> real \<Rightarrow> viewer \<Rightarrow> viewer" where
  "windEffect isClimateEnabled timeOfDay st =
     (case (scene st, climateData st, meshGroup st) of
        (Some sc, Some cd, Some mg) \<Rightarrow>
          (let st1 = (removeFromScene (windHelperRef st) st)\<lparr>windHelperRef := None\<rparr>
           in if isClimateEnabled then
                (let hourIndex = jsRem (jsRound timeOfDay) 24;
                     currentHourData =
                       (if 0 \<le> hourIndex \<and> nat hourIndex < length (hourly cd)
                        then hourly cd ! nat hourIndex else current cd);
                     cols = 6;
                     rows = 6;
                     grp = concat (map (\<lambda>i. map (\<lambda>j. Arrow i j (windDirection currentHourData))
                                              [0..<rows]) [0..<cols])
                 in case addToScene grp st1 of
                      (h, st2) \<Rightarrow> st2\<lparr>windHelperRef := Some h\<rparr>)
              else st1)
      | _ \<Rightarrow> st)"

section \<open>Map-tile underlay\<close>

definition EARTH_CIRCUMFERENCE :: real where
  "EARTH_CIRCUMFERENCE = 40075016.686"

text \<open>
  The value of \<open>targetZoom\<close> as a JavaScript number: \<open>Math.log2\<close> of a negative number
  is NaN and of zero is \<open>-Infinity\<close>, and \<open>Math.floor\<close> and the subtraction keep both.
\<close>

datatype jsInteger = NaN | MinusInfinity | Finite int

text \<open>
  \<open>Math.floor(Math.log2((10 * 256 * EARTH_CIRCUMFERENCE * cosLat) / (maxDim || 100)) - 8)\<close>.
\<close>

definition targetZoom :: "real \<Rightarrow> real \<Rightarrow> jsInteger" where
  "targetZoom cosLat maxDim =
     (let arg = (10 * 256 * EARTH_CIRCUMFERENCE * cosLat) / (if maxDim = 0 then 100 else maxDim)
      in if arg < 0 then NaN
         else if arg = 0 then MinusInfinity
         else Finite \<lfloor>log 2 arg - 8\<rfloor>)"

text \<open>
  \<open>Math.max(15, Math.min(19, targetZoom))\<close>: NaN stays NaN (here \<open>None\<close>), and
  \<open>-Infinity\<close> is raised to 15.
\<close>

fun zoomLevel :: "jsInteger \<Rightarrow> int option" where
  "zoomLevel NaN = None"
| "zoomLevel MinusInfinity = Some 15"
| "zoomLevel (Finite tz) = Some (max 15 (min 19 tz))"

definition getTileIndex :: "real \<Rightarrow> real \<Rightarrow> real \<Rightarrow> int" where
  "getTileIndex centerPixel metersPerPixel world = \<lfloor>(centerPixel + world / metersPerPixel) / 256\<rfloor>"

text \<open>
  The inner loop over \<open>ty\<close>: \<open>break\<close> leaves it as soon as 300 tiles were loaded; the
  outer loop over \<open>tx\<close> goes on and enters it again.
\<close>

fun tileColumn :: "int \<Rightarrow> int \<Rightarrow> int list \<Rightarrow> nat \<times> part list \<Rightarrow> nat \<times> part list" where
  "tileColumn zoom tx [] (loadedCount, grp) = (loadedCount, grp)"
| "tileColumn zoom tx (ty # tys) (loadedCount, grp) =
     (if loadedCount \<ge> 300 then (loadedCount, grp)
      else tileColumn zoom tx tys (loadedCount + 1, grp @ [Tile zoom tx ty]))"

definition loadTiles :: "int \<Rightarrow> int \<Rightarrow> int \<Rightarrow> int \<Rightarrow> int \<Rightarrow> nat \<times> part list" where
  "loadTiles zoom minTx maxTx minTy maxTy =
     (let pad = 3
      in foldl (\<lambda>acc tx. tileColumn zoom tx [minTy - pad .. maxTy + pad] acc) (0, [])
           [minTx - pad .. maxTx + pad])"

definition tileCountOf :: "int \<Rightarrow> int \<Rightarrow> int \<Rightarrow> int \<Rightarrow> int" where
  "tileCountOf minTx maxTx minTy maxTy =
     (let pad = 3 in (maxTx - minTx + 1 + 2 * pad) * (maxTy - minTy + 1 + 2 * pad))"

text \<open>
  From the origin and the corners of the bounding box to the zoom level and the range of
  tile indices that covers the box. With a zoom that is NaN every later number is NaN,
  which is \<open>None\<close> here. With \<open>cosLat = 0\<close> the metres per pixel are 0 and the code
  would divide by zero; the cosine of a floating-point number is never exactly 0, so the
  code does not get there, and nothing is proved below about that case.
\<close>

definition tileGrid ::
  "real \<Rightarrow> real \<Rightarrow> vec3 \<Rightarrow> vec3 \<Rightarrow> (int \<times> int \<times> int \<times> int \<times> int) option" where
  "tileGrid lat lon bmin bmax =
     (case (bmin, bmax) of
        ((x0, y0, z0), (x1, y1, z1)) \<Rightarrow>
          (let sizeX = x1 - x0;
               sizeZ = z1 - z0;
               maxDim = max sizeX sizeZ;
               latRad = lat * pi / 180;
               cosLat = cos latRad
           in case zoomLevel (targetZoom cosLat maxDim) of
                None \<Rightarrow> None
              | Some zoom \<Rightarrow>
                  (let metersPerPixel = (EARTH_CIRCUMFERENCE * cosLat) / 2 ^ nat (zoom + 8);
                       n = 2 ^ nat zoom;
                       xTileFloat = n * ((lon + 180) / 360);
                       yTileFloat = n * (1 - (ln (tan latRad + 1 / cos latRad) / pi)) / 2;
                       centerPixelX = xTileFloat * 256;
                       centerPixelY = yTileFloat * 256;
                       minTx = getTileIndex centerPixelX metersPerPixel x0;
                       maxTx = getTileIndex centerPixelX metersPerPixel x1;
                       minTy = getTileIndex centerPixelY metersPerPixel z0;
                       maxTy = getTileIndex centerPixelY metersPerPixel z1
                   in Some (zoom, minTx, maxTx, minTy, maxTy))))"

text \<open>
  The map-underlay effect. A warning of the console is recorded with the tile count it
  reports. When the tile grid is NaN, \<open>tileCount > 300\<close> is false and neither loop is
  entered, so an empty group is added.
\<close>

definition mapUnderlayEffect :: "bool \<Rightarrow> (real \<times> real) option \<Rightarrow> viewer \<Rightarrow> viewer" where
  "mapUnderlayEffect showMapUnderlay origin st =
     (case (scene st, meshGroup st, origin) of
        (Some sc, Some mg, Some (lat, lon)) \<Rightarrow>
          (let st1 = (removeFromScene (mapGroupRef st) st)\<lparr>mapGroupRef := None\<rparr>
           in if showMapUnderlay then
                (let box = setFromObject mg
                 in if isEmpty box then st1
                    else
                      (case box of
                         EmptyBox \<Rightarrow> st1
                       | Box bmin bmax \<Rightarrow>
                           (case tileGrid lat lon bmin bmax of
                              None \<Rightarrow>
                                (case addToScene [] st1 of
                                   (h, st3) \<Rightarrow> st3\<lparr>mapGroupRef := Some h\<rparr>)
                            | Some (zoom, minTx, maxTx, minTy, maxTy) \<Rightarrow>
                                (let tileCount = tileCountOf minTx maxTx minTy maxTy;
                                     st2 = (if tileCount > 300
                                            then st1\<lparr>consoleWarnings :=
                                                       consoleWarnings st1 @ [tileCount]\<rparr>
                                            else st1)
                                 in case loadTiles zoom minTx maxTx minTy maxTy of
                                      (loadedCount, grp) \<Rightarrow>
                                        (case addToScene grp st2 of
                                           (h, st3) \<Rightarrow> st3\<lparr>mapGroupRef := Some h\<rparr>)))))
              else st1)
      | _ \<Rightarrow> st)"

section \<open>Render capture\<close>

datatype tab = View3d | RenderTab

record renderUi =
  isRendering :: bool
  renderError :: "string option"
  renderedImageUrl :: "string option"
  originalImageUrl :: "string option"
  activeTab :: tab

text \<open>
  What the calls that \<open>handleRender\<close> cannot decide itself do: the capture
  (\<open>renderer.render\<close> and \<open>canvas.toDataURL\<close>) yields a data URL or raises, and the
  downstream part (reading the blob and \<open>generateRender\<close>) succeeds with an image URL,
  answers an error status, or rejects.
\<close>

datatype captureOutcome = Captured string | CaptureRaises string

datatype generateOutcome = GenSuccess string | GenError "string option" | GenRejects string

text \<open>\<open>ref.current.visible = b\<close> under \<open>if (ref.current)\<close>.\<close>

definition setHelperVisible :: "nat option \<Rightarrow> bool \<Rightarrow> viewer \<Rightarrow> viewer" where
  "setHelperVisible ref b st =
     (case ref of
        None \<Rightarrow> st
      | Some h \<Rightarrow>
          (case objects st h of
             None \<Rightarrow> st
           | Some obj \<Rightarrow> st\<lparr>objects := (objects st)(h \<mapsto> obj\<lparr>visible := b\<rparr>)\<rparr>))"

text \<open>\<open>ref.current?.visible\<close>.\<close>

definition helperVisible :: "nat option \<Rightarrow> viewer \<Rightarrow> bool option" where
  "helperVisible ref st =
     (case ref of
        None \<Rightarrow> None
      | Some h \<Rightarrow> map_option visible (objects st h))"

text \<open>\<open>if (ref.current && was !== undefined) ref.current.visible = was\<close>.\<close>

definition restoreHelper :: "nat option \<Rightarrow> bool option \<Rightarrow> viewer \<Rightarrow> viewer" where
  "restoreHelper ref was st =
     (case was of
        None \<Rightarrow> st
      | Some b \<Rightarrow> setHelperVisible ref b st)"

text \<open>
  \<open>handleRender\<close>. The body of the \<open>try\<close> is followed statement by statement; a raise
  leaves the state as it is at that statement, the \<open>catch\<close> stores the message and the
  \<open>finally\<close> clears \<open>isRendering\<close>.
\<close>

definition handleRender ::
  "bool \<Rightarrow> captureOutcome \<Rightarrow> generateOutcome \<Rightarrow> viewer \<times> renderUi \<Rightarrow> viewer \<times> renderUi" where
  "handleRender hasApiKey capture generate vu =
     (case vu of (st, ui) \<Rightarrow>
        (case rendererSize st of
           None \<Rightarrow> (st, ui)
         | Some originalSize \<Rightarrow>
             if \<not> hasApiKey then (st, ui)
             else
               (let ui1 = ui\<lparr>isRendering := True, renderError := None,
                             renderedImageUrl := None, activeTab := RenderTab\<rparr>;
                    wasSolarVisible = helperVisible (solarHelperRef st) st;
                    wasWindVisible = helperVisible (windHelperRef st) st;
                    st1 = setHelperVisible (windHelperRef st) False
                            (setHelperVisible (solarHelperRef st) False st);
                    result =
                      (case cameraAspect st1 of
                         None \<Rightarrow>
                           (st1, ui1\<lparr>renderError := Some ''Cannot read properties of null''\<rparr>)
                       | Some originalAspect \<Rightarrow>
                           (let st2 = st1\<lparr>rendererSize := Some (1376, 768),
                                          cameraAspect := Some (1376 / 768)\<rparr>
                            in case capture of
                                 CaptureRaises msg \<Rightarrow> (st2, ui1\<lparr>renderError := Some msg\<rparr>)
                               | Captured dataUrl \<Rightarrow>
                                   (let st3 = st2\<lparr>rendererSize := Some originalSize,
                                                  cameraAspect := Some originalAspect\<rparr>;
                                        st4 = restoreHelper (windHelperRef st3) wasWindVisible
                                                (restoreHelper (solarHelperRef st3) wasSolarVisible st3);
                                        ui2 = ui1\<lparr>originalImageUrl := Some dataUrl\<rparr>
                                    in case generate of
                                         GenSuccess imageUrl \<Rightarrow>
                                           (st4, ui2\<lparr>renderedImageUrl := Some imageUrl\<rparr>)
                                       | GenError err \<Rightarrow>
                                           (st4, ui2\<lparr>renderError :=
                                                       Some (orStr err ''Rendering failed'')\<rparr>)
                                       | GenRejects msg \<Rightarrow>
                                           (st4, ui2\<lparr>renderError := Some msg\<rparr>))))
                in case result of (st', ui') \<Rightarrow> (st', ui'\<lparr>isRendering := False\<rparr>))))"

section \<open>Geometry loads and climate requests\<close>

text \<open>
  The climate-fetch effect, run when \<open>geometryData\<close> changes: with an origin it issues a
  request. The scene effect runs later in the same commit and raises the scene generation
  by one; the ghost tag of the request is that generation.
\<close>

definition climateFetchEffect :: "(real \<times> real) option \<Rightarrow> viewer \<Rightarrow> viewer" where
  "climateFetchEffect origin st =
     (case origin of
        None \<Rightarrow> st
      | Some (lat, lon) \<Rightarrow>
          st\<lparr>pendingFetches :=
               pendingFetches st
               @ [\<lparr>fetchLat = lat, fetchLon = lon, issuedFor = sceneGeneration st + 1\<rparr>]\<rparr>)"

text \<open>
  The part of the scene effect that the overlays depend on: a new scene and mesh group,
  \<open>setSceneGeneration(g => g + 1)\<close>, a camera and a renderer of the container's size, and
  the sun light. The helper refs are not touched. The vertices of the ingested meshes and
  the size of the container are parameters.
\<close>

definition sceneEffect :: "vec3 list \<Rightarrow> real \<times> real \<Rightarrow> viewer \<Rightarrow> viewer" where
  "sceneEffect vertices clientSize st =
     st\<lparr>scene := Some [],
        sceneGeneration := sceneGeneration st + 1,
        cameraAspect := Some (fst clientSize / snd clientSize),
        rendererSize := Some clientSize,
        sunLightRef := Some \<lparr>lightPosition = (0, 1, 0), lightTarget = (0, 0, 0),
                             castShadow = True, shadowCamSize = 300,
                             shadowNear = 0.5, shadowFar = 500\<rparr>,
        meshGroup := Some vertices\<rparr>"

text \<open>A change of \<open>geometryData\<close> to a payload, with the preview open.\<close>

definition loadGeometry ::
  "(real \<times> real) option \<Rightarrow> vec3 list \<Rightarrow> real \<times> real \<Rightarrow> viewer \<Rightarrow> viewer" where
  "loadGeometry origin vertices clientSize st =
     sceneEffect vertices clientSize (climateFetchEffect origin st)"

text \<open>
  The \<open>then\<close> callback of the request at position \<open>i\<close> of the pending ones, called with
  the data or with \<open>null\<close>: \<open>if (data) setClimateData(data)\<close>.
\<close>

definition climateResolved :: "nat \<Rightarrow> climateData option \<Rightarrow> viewer \<Rightarrow> viewer" where
  "climateResolved i data st =
     (if i < length (pendingFetches st) then
        (let st' = st\<lparr>pendingFetches :=
                       take i (pendingFetches st) @ drop (Suc i) (pendingFetches st)\<rparr>
         in case data of
              None \<Rightarrow> st'
            | Some d \<Rightarrow> st'\<lparr>climateData := Some d\<rparr>)
      else st)"

text \<open>The component before the preview was ever opened.\<close>

definition initialViewer :: viewer where
  "initialViewer =
     \<lparr>scene = None, meshGroup = None, objects = Map.empty, nextId = 0,
      solarHelperRef = None, windHelperRef = None, mapGroupRef = None,
      sunLightRef = None, background = (''#3b82f6'', ''#e0f2fe''), consoleWarnings = [],
      rendererSize = None, cameraAspect = None, sceneGeneration = 0,
      climateData = None, pendingFetches = []\<rparr>"


text \<open>Some climate data, as an input for the wind overlay.\<close>

definition sampleClimate :: climateData where
  "sampleClimate =
     \<lparr>current = \<lparr>temperature = 18, windSpeed = 12, windDirection = 270\<rparr>, hourly = []\<rparr>"

text \<open>The render state before the first render.\<close>

definition initialUi :: renderUi where
  "initialUi =
     \<lparr>isRendering = False, renderError = None, renderedImageUrl = None,
      originalImageUrl = None, activeTab = View3d\<rparr>"

text \<open>
  An effect run from \<open>st\<close> to \<open>st'\<close> created no helper group and left no object in the
  scene that was not there before.
\<close>

definition addsNoNode :: "viewer \<Rightarrow> viewer \<Rightarrow> bool" where
  "addsNoNode st st' =
     (nextId st' = nextId st \<and> objects st' = objects st
      \<and> (case (scene st, scene st') of
            (None, None) \<Rightarrow> True
          | (Some before, Some after) \<Rightarrow> set after \<subseteq> set before
          | _ \<Rightarrow> False))"

text \<open>
  The preview opened on a payload with an origin and no mesh at all, and the same after
  its climate request was answered.
\<close>

definition emptySceneViewer :: viewer where
  "emptySceneViewer = loadGeometry (Some (48.85, 2.35)) [] (800, 600) initialViewer"

definition emptySceneWithClimate :: viewer where
  "emptySceneWithClimate = climateResolved 0 (Some sampleClimate) emptySceneViewer"

text \<open>
  The preview opened on a payload with two mesh vertices, with the solar path switched
  on.
\<close>

definition solarPathViewer :: viewer where
  "solarPathViewer =
     solarPathEffect cutoffSun True 12 (Some (0, 0))
       (sceneEffect [(0, 0, 0), (100, 10, 50)] (800, 600) initialViewer)"

text \<open>
  Two geometry loads in a row, the climate request of the first still in flight after
  the second.
\<close>

definition reloadedViewer :: viewer where
  "reloadedViewer =
     loadGeometry (Some (40.7, - 74)) [] (800, 600)
       (loadGeometry (Some (48.85, 2.35)) [] (800, 600) initialViewer)"



text \<open>Nodes of the payload with every field present, as inputs for the synthesis.\<close>

definition treeNode :: "real \<Rightarrow> node" where
  "treeNode s =
     \<lparr>node_instanceType = None, node_type = Some ''tree'', node_x = Some 3, node_y = Some 4,
      node_z = Some 5, node_scale = Some s\<rparr>"

definition benchNode :: "real \<Rightarrow> node" where
  "benchNode s =
     \<lparr>node_instanceType = None, node_type = Some ''Bench'', node_x = Some 1, node_y = Some 2,
      node_z = Some 3, node_scale = Some s\<rparr>"

text \<open>
  A surface layer with a footway, a water and a plaza mesh and a mesh without subtype,
  and two visibility states: the group shown with the footway switched off, and the
  group hidden with every subtype switched on.
\<close>

definition surfaceMeshes :: layerGroup where
  "surfaceMeshes =
     \<lparr>group_visible = True,
      children =
        [\<lparr>userData_subtype = Some ''footway'', child_visible = True, child_geometry = 1\<rparr>,
         \<lparr>userData_subtype = Some ''water'', child_visible = True, child_geometry = 2\<rparr>,
         \<lparr>userData_subtype = Some ''plaza'', child_visible = False, child_geometry = 3\<rparr>,
         \<lparr>userData_subtype = None, child_visible = True, child_geometry = 4\<rparr>]\<rparr>"

definition footwayOff :: layerVisibility where
  "footwayOff =
     \<lparr>buildings = True,
      surface = \<lparr>sv_group = True,
                 sv_subtypes = [''footway'' \<mapsto> False, ''water'' \<mapsto> True, ''default'' \<mapsto> True]\<rparr>,
      vegetation = True, infrastructure = True, barriers = True, topography = True\<rparr>"

definition groupOff :: layerVisibility where
  "groupOff =
     \<lparr>buildings = True,
      surface = \<lparr>sv_group = False,
                 sv_subtypes = [''footway'' \<mapsto> True, ''water'' \<mapsto> True, ''default'' \<mapsto> True]\<rparr>,
      vegetation = True, infrastructure = True, barriers = True, topography = True\<rparr>"

section \<open>Verification: point instances\<close>

lemma startsWith_iff: "startsWith s p \<longleftrightarrow> (\<exists>post. s = p @ post)"
  by (induction s p rule: startsWith.induct) auto

lemma includesStr_iff: "includesStr s sub \<longleftrightarrow> (\<exists>pre post. s = pre @ sub @ post)"
proof (induction s)
  case Nil
  then show ?case by auto
next
  case (Cons c cs)
  show ?case
  proof
    assume "includesStr (c # cs) sub"
    then consider "startsWith (c # cs) sub" | "includesStr cs sub" by auto
    then show "\<exists>pre post. c # cs = pre @ sub @ post"
    proof cases
      case 1
      then obtain post where "c # cs = sub @ post" by (auto simp: startsWith_iff)
      then have "c # cs = [] @ sub @ post" by simp
      then show ?thesis by blast
    next
      case 2
      then obtain pre post where "cs = pre @ sub @ post" using Cons.IH by auto
      then have "c # cs = (c # pre) @ sub @ post" by simp
      then show ?thesis by blast
    qed
  next
    assume "\<exists>pre post. c # cs = pre @ sub @ post"
    then obtain pre post where eq: "c # cs = pre @ sub @ post" by blast
    show "includesStr (c # cs) sub"
    proof (cases pre)
      case Nil
      with eq have "startsWith (c # cs) sub" by (auto simp: startsWith_iff)
      then show ?thesis by simp
    next
      case (Cons a pre')
      with eq have "cs = pre' @ sub @ post" by simp
      then have "includesStr cs sub" using Cons.IH by blast
      then show ?thesis by simp
    qed
  qed
qed

lemma knownNonTreeTypes_set:
  "set knownNonTreeTypes =
     {''shrubbery'', ''utilitypole'', ''bench'', ''hydrant'', ''rock'', ''illustration'',
      ''adcolumn'', ''ac_unit''}"
  by (simp add: knownNonTreeTypes_def)

lemma category_keys:
  "category nodeType \<in> {''shrubbery'', ''utilityPole'', ''bench'', ''default''}"
  by (auto simp: category_def)

text \<open>
  C1. The classifier is a total function of the raw tag. It answers one of the five
  classes; it answers tree exactly when the trimmed, lower-cased tag contains
  \<open>tree\<close> as a substring or is outside the fixed set of eight known tags; otherwise
  \<open>utilitypole\<close> goes to the utility-pole batch, \<open>shrubbery\<close> and \<open>bench\<close> to their own
  batches and every other known tag to the default batch; and the batch it answers is a
  key of the instance table, so the push that follows cannot raise.
\<close>

theorem classify_total:
  "classify rawType
     \<in> {TreeClass, Batch ''shrubbery'', Batch ''utilityPole'', Batch ''bench'', Batch ''default''}
   \<and> (classify rawType = TreeClass \<longleftrightarrow>
        (\<exists>pre post. normalizeType rawType = pre @ ''tree'' @ post)
        \<or> normalizeType rawType
            \<notin> {''shrubbery'', ''utilitypole'', ''bench'', ''hydrant'', ''rock'',
                ''illustration'', ''adcolumn'', ''ac_unit''})
   \<and> (classify rawType \<noteq> TreeClass \<longrightarrow>
        classify rawType =
          (if normalizeType rawType = ''utilitypole'' then Batch ''utilityPole''
           else if normalizeType rawType = ''shrubbery'' then Batch ''shrubbery''
           else if normalizeType rawType = ''bench'' then Batch ''bench''
           else Batch ''default''))
   \<and> (\<forall>key. classify rawType = Batch key \<longrightarrow> initialInstances key = Some [])"
proof -
  let ?nt = "normalizeType rawType"
  have range: "classify rawType
     \<in> {TreeClass, Batch ''shrubbery'', Batch ''utilityPole'', Batch ''bench'', Batch ''default''}"
    using category_keys [of ?nt] by (auto simp: classify_def Let_def)
  have tree: "classify rawType = TreeClass \<longleftrightarrow>
        (\<exists>pre post. ?nt = pre @ ''tree'' @ post)
        \<or> ?nt \<notin> {''shrubbery'', ''utilitypole'', ''bench'', ''hydrant'', ''rock'',
                ''illustration'', ''adcolumn'', ''ac_unit''}"
    unfolding knownNonTreeTypes_set [symmetric] includesStr_iff [symmetric]
    by (simp add: classify_def Let_def isTree_def)
  have other: "classify rawType \<noteq> TreeClass \<longrightarrow>
        classify rawType =
          (if ?nt = ''utilitypole'' then Batch ''utilityPole''
           else if ?nt = ''shrubbery'' then Batch ''shrubbery''
           else if ?nt = ''bench'' then Batch ''bench''
           else Batch ''default'')"
    by (simp add: classify_def Let_def category_def)
  have keys: "\<forall>key. classify rawType = Batch key \<longrightarrow> initialInstances key = Some []"
    using category_keys [of ?nt]
    by (auto simp: classify_def Let_def initialInstances_def split: if_splits)
  from range tree other keys show ?thesis by blast
qed

theorem classify_total_witness:
  "classify '' UtilityPole '' \<noteq> TreeClass
   \<and> classify '' UtilityPole '' = Batch ''utilityPole''
   \<and> initialInstances ''utilityPole'' = Some []"
proof -
  have n: "normalizeType '' UtilityPole '' = ''utilitypole''"
    by code_simp
  have nt: "classify '' UtilityPole '' \<noteq> TreeClass"
    by code_simp
  show ?thesis
    using nt classify_total [of "'' UtilityPole ''"] by (simp add: n)
qed

lemma push_present: "insts key = Some items \<Longrightarrow> push insts key item = Inr (insts(key \<mapsto> items @ [item]))"
  by (simp add: push_def)

lemma processNode_total:
  assumes "hasBatchKeys insts"
  shows "\<exists>insts'. processNode insts nd = Inr insts' \<and> hasBatchKeys insts'"
  using assms category_keys [of "normalizeType (rawTypeOf nd)"]
  by (auto simp add: processNode_def Let_def push_def hasBatchKeys_def split: option.splits)

lemma processNodes_total:
  "hasBatchKeys insts \<Longrightarrow> \<exists>insts'. processNodes insts nds = Inr insts' \<and> hasBatchKeys insts'"
proof (induction nds arbitrary: insts)
  case Nil
  then show ?case by simp
next
  case (Cons nd nds)
  from processNode_total [OF Cons.prems, of nd]
  obtain mid where "processNode insts nd = Inr mid" and "hasBatchKeys mid"
    by blast
  with Cons.IH [of mid] show ?case by simp
qed

lemma hasBatchKeys_initial: "hasBatchKeys initialInstances"
  by (simp add: hasBatchKeys_def initialInstances_def)

lemma normalizeType_default: "normalizeType ''default'' = ''default''"
  by code_simp

lemma isTree_default: "isTree ''default''"
  by (simp add: isTree_def knownNonTreeTypes_def)

text \<open>
  C8. The dimensions of a point instance come from \<open>max (scale, 1)\<close>. A node whose scale
  is below 1 is ingested exactly as the same node with scale 1. A tree at (x, y, z) with
  scale s gives a trunk at (x, y, z) scaled by (m/16, m/8, m/16) and a foliage instance
  at (x, y + 0.156 m, z) scaled by 0.156 m in each axis, with m = max s 1; a node of any
  other category gives one instance at (x, y, z) scaled by 0.5 m in each axis.
\<close>

theorem scale_floor:
  "(s < 1 \<longrightarrow>
      processNode insts (nd\<lparr>node_scale := Some s\<rparr>) = processNode insts (nd\<lparr>node_scale := Some 1\<rparr>))
   \<and> (isTree (normalizeType (rawTypeOf nd)) \<and> insts ''tree_trunk'' = Some ts
        \<and> insts ''tree_foliage'' = Some fs \<longrightarrow>
      processNode insts
        (nd\<lparr>node_x := Some x, node_y := Some y, node_z := Some z, node_scale := Some s\<rparr>) =
        Inr (insts(''tree_trunk'' \<mapsto> ts @
               [\<lparr>position = (x, y, z),
                 scale = (max s 1 * 0.0625, max s 1 * 0.125, max s 1 * 0.0625),
                 color = ''#5D4037''\<rparr>],
             ''tree_foliage'' \<mapsto> fs @
               [\<lparr>position = (x, y + max s 1 * 0.156, z),
                 scale = (max s 1 * 0.156, max s 1 * 0.156, max s 1 * 0.156),
                 color = ''#228B22''\<rparr>])))
   \<and> (\<not> isTree (normalizeType (rawTypeOf nd))
        \<and> insts (category (normalizeType (rawTypeOf nd))) = Some items \<longrightarrow>
      processNode insts
        (nd\<lparr>node_x := Some x, node_y := Some y, node_z := Some z, node_scale := Some s\<rparr>) =
        Inr (insts(category (normalizeType (rawTypeOf nd)) \<mapsto> items @
               [\<lparr>position = (x, y, z),
                 scale = (max s 1 * 0.5, max s 1 * 0.5, max s 1 * 0.5),
                 color = infraColor (normalizeType (rawTypeOf nd)) (rawTypeOf nd)\<rparr>])))"
proof -
  let ?nd = "nd\<lparr>node_x := Some x, node_y := Some y, node_z := Some z, node_scale := Some s\<rparr>"
  have raw: "rawTypeOf ?nd = rawTypeOf nd"
    by (simp add: rawTypeOf_def)
  have pos: "orNum (node_x ?nd) 0 = x" "orNum (node_y ?nd) 0 = y" "orNum (node_z ?nd) 0 = z"
    by (simp_all add: orNum_def)
  have m: "max (orNum (node_scale ?nd) 1) 1 = max s 1"
    by (simp add: orNum_def max_def)
  have floor: "s < 1 \<longrightarrow>
      processNode insts (nd\<lparr>node_scale := Some s\<rparr>) = processNode insts (nd\<lparr>node_scale := Some 1\<rparr>)"
    by (simp add: processNode_def Let_def orNum_def max_def rawTypeOf_def)
  have tree: "isTree (normalizeType (rawTypeOf nd)) \<and> insts ''tree_trunk'' = Some ts
        \<and> insts ''tree_foliage'' = Some fs \<longrightarrow>
      processNode insts ?nd =
        Inr (insts(''tree_trunk'' \<mapsto> ts @
               [\<lparr>position = (x, y, z),
                 scale = (max s 1 * 0.0625, max s 1 * 0.125, max s 1 * 0.0625),
                 color = ''#5D4037''\<rparr>],
             ''tree_foliage'' \<mapsto> fs @
               [\<lparr>position = (x, y + max s 1 * 0.156, z),
                 scale = (max s 1 * 0.156, max s 1 * 0.156, max s 1 * 0.156),
                 color = ''#228B22''\<rparr>]))"
    unfolding processNode_def Let_def raw pos m by (simp add: push_def)
  have other: "\<not> isTree (normalizeType (rawTypeOf nd))
        \<and> insts (category (normalizeType (rawTypeOf nd))) = Some items \<longrightarrow>
      processNode insts ?nd =
        Inr (insts(category (normalizeType (rawTypeOf nd)) \<mapsto> items @
               [\<lparr>position = (x, y, z),
                 scale = (max s 1 * 0.5, max s 1 * 0.5, max s 1 * 0.5),
                 color = infraColor (normalizeType (rawTypeOf nd)) (rawTypeOf nd)\<rparr>]))"
    unfolding processNode_def Let_def raw pos m by (simp add: push_def)
  from floor tree other show ?thesis by blast
qed

theorem scale_floor_witness:
  "(0.3 :: real) < 1
   \<and> processNode initialInstances (treeNode 0.3) = processNode initialInstances (treeNode 1)
   \<and> processNode initialInstances (treeNode 0.3)
     = Inr (initialInstances(''tree_trunk'' \<mapsto>
               [\<lparr>position = (3, 4, 5), scale = (0.0625, 0.125, 0.0625), color = ''#5D4037''\<rparr>],
             ''tree_foliage'' \<mapsto>
               [\<lparr>position = (3, 4.156, 5), scale = (0.156, 0.156, 0.156),
                 color = ''#228B22''\<rparr>]))
   \<and> processNode initialInstances (treeNode 2)
     = Inr (initialInstances(''tree_trunk'' \<mapsto>
               [\<lparr>position = (3, 4, 5), scale = (0.125, 0.25, 0.125), color = ''#5D4037''\<rparr>],
             ''tree_foliage'' \<mapsto>
               [\<lparr>position = (3, 4.312, 5), scale = (0.312, 0.312, 0.312),
                 color = ''#228B22''\<rparr>]))
   \<and> processNode initialInstances (benchNode 0.3)
     = Inr (initialInstances(''bench'' \<mapsto>
               [\<lparr>position = (1, 2, 3), scale = (0.5, 0.5, 0.5), color = ''#A0522D''\<rparr>]))
   \<and> processNode initialInstances (benchNode 4)
     = Inr (initialInstances(''bench'' \<mapsto>
               [\<lparr>position = (1, 2, 3), scale = (2, 2, 2), color = ''#A0522D''\<rparr>]))"
proof -
  have small: "(0.3 :: real) < 1" by simp
  have nt: "normalizeType ''tree'' = ''tree''" by code_simp
  have nb: "normalizeType ''Bench'' = ''bench''" by code_simp
  have rt: "rawTypeOf (treeNode s) = ''tree''" for s
    by (simp add: treeNode_def rawTypeOf_def orStr_def)
  have rb: "rawTypeOf (benchNode s) = ''Bench''" for s
    by (simp add: benchNode_def rawTypeOf_def orStr_def)
  have it: "isTree ''tree''" by (simp add: isTree_def)
  have ib: "\<not> isTree ''bench''" by (simp add: isTree_def knownNonTreeTypes_def)
  have cb: "category ''bench'' = ''bench''" by (simp add: category_def)
  have col: "infraColor ''bench'' ''Bench'' = ''#A0522D''"
    by (simp add: infraColor_def infrastructureColors_def)
  have k1: "initialInstances ''tree_trunk'' = Some []"
    and k2: "initialInstances ''tree_foliage'' = Some []"
    and k3: "initialInstances ''bench'' = Some []"
    by (simp_all add: initialInstances_def)
  have tn: "(treeNode 0) \<lparr>node_x := Some 3, node_y := Some 4, node_z := Some 5, node_scale := Some s\<rparr>
            = treeNode s" for s
    by (simp add: treeNode_def)
  have bn: "(benchNode 0) \<lparr>node_x := Some 1, node_y := Some 2, node_z := Some 3, node_scale := Some s\<rparr>
            = benchNode s" for s
    by (simp add: benchNode_def)
  have a: "processNode initialInstances (treeNode 0.3) = processNode initialInstances (treeNode 1)"
    using small scale_floor [of "0.3" initialInstances "treeNode 0", THEN conjunct1]
    by (simp add: treeNode_def)
  have b: "processNode initialInstances (treeNode 0.3)
     = Inr (initialInstances(''tree_trunk'' \<mapsto>
               [\<lparr>position = (3, 4, 5), scale = (0.0625, 0.125, 0.0625), color = ''#5D4037''\<rparr>],
             ''tree_foliage'' \<mapsto>
               [\<lparr>position = (3, 4.156, 5), scale = (0.156, 0.156, 0.156),
                 color = ''#228B22''\<rparr>]))"
    using scale_floor [where s = "0.3" and insts = initialInstances and nd = "treeNode 0"
        and ts = "[]" and fs = "[]" and x = 3 and y = 4 and z = 5,
        THEN conjunct2, THEN conjunct1]
    by (simp add: tn rt nt it k1 k2)
  have c: "processNode initialInstances (treeNode 2)
     = Inr (initialInstances(''tree_trunk'' \<mapsto>
               [\<lparr>position = (3, 4, 5), scale = (0.125, 0.25, 0.125), color = ''#5D4037''\<rparr>],
             ''tree_foliage'' \<mapsto>
               [\<lparr>position = (3, 4.312, 5), scale = (0.312, 0.312, 0.312),
                 color = ''#228B22''\<rparr>]))"
    using scale_floor [where s = 2 and insts = initialInstances and nd = "treeNode 0"
        and ts = "[]" and fs = "[]" and x = 3 and y = 4 and z = 5,
        THEN conjunct2, THEN conjunct1]
    by (simp add: tn rt nt it k1 k2)
  have d: "processNode initialInstances (benchNode 0.3)
     = Inr (initialInstances(''bench'' \<mapsto>
               [\<lparr>position = (1, 2, 3), scale = (0.5, 0.5, 0.5), color = ''#A0522D''\<rparr>]))"
    using scale_floor [where s = "0.3" and insts = initialInstances and nd = "benchNode 0"
        and items = "[]" and x = 1 and y = 2 and z = 3,
        THEN conjunct2, THEN conjunct2]
    by (simp add: bn rb nb ib cb col k3)
  have e: "processNode initialInstances (benchNode 4)
     = Inr (initialInstances(''bench'' \<mapsto>
               [\<lparr>position = (1, 2, 3), scale = (2, 2, 2), color = ''#A0522D''\<rparr>]))"
    using scale_floor [where s = 4 and insts = initialInstances and nd = "benchNode 0"
        and items = "[]" and x = 1 and y = 2 and z = 3,
        THEN conjunct2, THEN conjunct2]
    by (simp add: bn rb nb ib cb col k3)
  from small a b c d e show ?thesis by blast
qed

text \<open>
  C10. Ingesting a node never fails, whatever fields are absent. An absent \<open>x\<close>, \<open>y\<close> or
  \<open>z\<close> is ingested as 0, an absent scale as 1, and a node with neither \<open>instanceType\<close> nor
  \<open>type\<close> as one tagged \<open>default\<close>, which is classified as a tree. A node with no field
  at all yields one trunk at the origin and one foliage instance above it (lifted by the
  foliage offset 0.156), both with the dimensions of scale 1.
\<close>

theorem absent_fields_default:
  "(hasBatchKeys insts \<longrightarrow> (\<exists>insts'. processNode insts nd = Inr insts'))
   \<and> processNode insts (nd\<lparr>node_x := None\<rparr>) = processNode insts (nd\<lparr>node_x := Some 0\<rparr>)
   \<and> processNode insts (nd\<lparr>node_y := None\<rparr>) = processNode insts (nd\<lparr>node_y := Some 0\<rparr>)
   \<and> processNode insts (nd\<lparr>node_z := None\<rparr>) = processNode insts (nd\<lparr>node_z := Some 0\<rparr>)
   \<and> processNode insts (nd\<lparr>node_scale := None\<rparr>)
       = processNode insts (nd\<lparr>node_scale := Some 1\<rparr>)
   \<and> rawTypeOf (nd\<lparr>node_instanceType := None, node_type := None\<rparr>) = ''default''
   \<and> classify ''default'' = TreeClass
   \<and> processNode initialInstances
        \<lparr>node_instanceType = None, node_type = None, node_x = None, node_y = None,
         node_z = None, node_scale = None\<rparr>
       = Inr (initialInstances(''tree_trunk'' \<mapsto>
               [\<lparr>position = (0, 0, 0), scale = (0.0625, 0.125, 0.0625), color = ''#5D4037''\<rparr>],
             ''tree_foliage'' \<mapsto>
               [\<lparr>position = (0, 0.156, 0), scale = (0.156, 0.156, 0.156),
                 color = ''#228B22''\<rparr>]))"
proof -
  have total: "hasBatchKeys insts \<longrightarrow> (\<exists>insts'. processNode insts nd = Inr insts')"
    using processNode_total [of insts nd] by blast
  have x: "processNode insts (nd\<lparr>node_x := None\<rparr>) = processNode insts (nd\<lparr>node_x := Some 0\<rparr>)"
    by (simp add: processNode_def orNum_def rawTypeOf_def)
  have y: "processNode insts (nd\<lparr>node_y := None\<rparr>) = processNode insts (nd\<lparr>node_y := Some 0\<rparr>)"
    by (simp add: processNode_def orNum_def rawTypeOf_def)
  have z: "processNode insts (nd\<lparr>node_z := None\<rparr>) = processNode insts (nd\<lparr>node_z := Some 0\<rparr>)"
    by (simp add: processNode_def orNum_def rawTypeOf_def)
  have sc: "processNode insts (nd\<lparr>node_scale := None\<rparr>)
            = processNode insts (nd\<lparr>node_scale := Some 1\<rparr>)"
    by (simp add: processNode_def orNum_def rawTypeOf_def)
  have raw: "rawTypeOf (nd\<lparr>node_instanceType := None, node_type := None\<rparr>) = ''default''"
    by (simp add: rawTypeOf_def orStr_def)
  have cls: "classify ''default'' = TreeClass"
    by (simp add: classify_def normalizeType_default isTree_default)
  have bare: "processNode initialInstances
        \<lparr>node_instanceType = None, node_type = None, node_x = None, node_y = None,
         node_z = None, node_scale = None\<rparr>
       = Inr (initialInstances(''tree_trunk'' \<mapsto>
               [\<lparr>position = (0, 0, 0), scale = (0.0625, 0.125, 0.0625), color = ''#5D4037''\<rparr>],
             ''tree_foliage'' \<mapsto>
               [\<lparr>position = (0, 0.156, 0), scale = (0.156, 0.156, 0.156),
                 color = ''#228B22''\<rparr>]))"
    by (simp add: processNode_def Let_def orNum_def orStr_def rawTypeOf_def
          normalizeType_default isTree_default push_def initialInstances_def)
  from total x y z sc raw cls bare show ?thesis by blast
qed

theorem absent_fields_default_witness:
  "hasBatchKeys initialInstances
   \<and> (\<exists>insts'. processNode initialInstances
         \<lparr>node_instanceType = None, node_type = None, node_x = None, node_y = None,
          node_z = None, node_scale = None\<rparr> = Inr insts')"
  using hasBatchKeys_initial
    absent_fields_default [of initialInstances
      "\<lparr>node_instanceType = None, node_type = None, node_x = None, node_y = None,
        node_z = None, node_scale = None\<rparr>"]
  by blast

section \<open>Verification: layer visibility\<close>

lemma applyEntry_Flag:
  "applyEntry groups (key, Flag b) k =
     (if k = key then map_option (\<lambda>grp. grp\<lparr>group_visible := b\<rparr>) (groups key) else groups k)"
  by (cases "groups key") auto

lemma applyEntry_Surface:
  "applyEntry groups (''surface'', SurfaceFlags sv) k =
     (if k = ''surface''
      then map_option
             (\<lambda>grp. \<lparr>group_visible = sv_group sv,
                     children = map (\<lambda>child. child\<lparr>child_visible := isSubVisible sv child\<rparr>)
                                  (children grp)\<rparr>)
             (groups ''surface'')
      else groups k)"
  by (cases "groups ''surface''") auto

text \<open>What the visibility effect leaves at each key of the layer table.\<close>

lemma applyVisibility_at:
  "applyVisibility lv groups key =
    (if key = ''buildings''
     then map_option (\<lambda>grp. grp\<lparr>group_visible := buildings lv\<rparr>) (groups key)
     else if key = ''surface''
     then map_option
            (\<lambda>grp. \<lparr>group_visible = sv_group (surface lv),
                    children = map (\<lambda>child. child\<lparr>child_visible := isSubVisible (surface lv) child\<rparr>)
                                 (children grp)\<rparr>)
            (groups key)
     else if key = ''vegetation''
     then map_option (\<lambda>grp. grp\<lparr>group_visible := vegetation lv\<rparr>) (groups key)
     else if key = ''infrastructure''
     then map_option (\<lambda>grp. grp\<lparr>group_visible := infrastructure lv\<rparr>) (groups key)
     else if key = ''barriers''
     then map_option (\<lambda>grp. grp\<lparr>group_visible := barriers lv\<rparr>) (groups key)
     else if key = ''topography''
     then map_option (\<lambda>grp. grp\<lparr>group_visible := topography lv\<rparr>) (groups key)
     else groups key)"
  by (simp add: applyVisibility_def entries_def applyEntry_Flag applyEntry_Surface
        del: applyEntry.simps)

lemma isSubVisible_flag_update:
  "isSubVisible sv (child\<lparr>child_visible := b\<rparr>) = isSubVisible sv child"
  by (simp add: isSubVisible_def)

lemma applyVisibility_absorb:
  "applyVisibility lv (applyVisibility lv' groups) = applyVisibility lv groups"
proof
  fix key
  show "applyVisibility lv (applyVisibility lv' groups) key = applyVisibility lv groups key"
    by (simp add: applyVisibility_at option.map_comp comp_def isSubVisible_flag_update)
qed

lemma applyVisibility_geometry:
  "layerGeometry (applyVisibility lv groups) key = layerGeometry groups key"
  by (simp add: layerGeometry_def applyVisibility_at option.map_comp comp_def)

lemma applyVisibility_dom: "dom (applyVisibility lv groups) = dom groups"
proof -
  have "applyVisibility lv groups key = None \<longleftrightarrow> groups key = None" for key
    by (simp add: applyVisibility_at)
  then show ?thesis
    by (auto simp: dom_def)
qed

lemma toggleLayer_twice: "toggleLayer (toggleLayer lv L) L = lv"
  by (cases L) simp_all

lemma toggleLayer_hides:
  "layerFlag lv L \<Longrightarrow>
   visiblePrimitives (applyVisibility (toggleLayer lv L) groups) (layerKey L) = []"
  by (cases L)
     (auto simp add: layerFlag_def visiblePrimitives_def applyVisibility_at
        effectivelyVisible_def split: option.splits)

text \<open>
  C6. After the visibility effect has run, a child of the surface group is drawn exactly
  when the group flag \<open>_group\<close> is set and the flag stored for the child's subtype is
  set, a subtype for which no flag is stored counting as set. A child without subtype
  goes by the flag of \<open>default\<close>; for a child whose subtype is the key \<open>_group\<close> itself
  the flag read is the group flag. This holds for every child and every visibility
  state; the child keeps its place and its geometry.
\<close>

theorem surface_child_visibility:
  assumes "groups ''surface'' = Some grp" and "i < length (children grp)"
  shows "\<exists>grp'. applyVisibility lv groups ''surface'' = Some grp'
           \<and> length (children grp') = length (children grp)
           \<and> child_geometry (children grp' ! i) = child_geometry (children grp ! i)
           \<and> (\<forall>k. userData_subtype (children grp ! i) = Some k \<and> k \<noteq> [] \<and> k \<noteq> ''_group'' \<longrightarrow>
                  (effectivelyVisible grp' (children grp' ! i) \<longleftrightarrow> spec_surfaceVisible lv k))
           \<and> (userData_subtype (children grp ! i) = None
                \<or> userData_subtype (children grp ! i) = Some [] \<longrightarrow>
                  (effectivelyVisible grp' (children grp' ! i)
                     \<longleftrightarrow> spec_surfaceVisible lv ''default''))
           \<and> (userData_subtype (children grp ! i) = Some ''_group'' \<longrightarrow>
                  (effectivelyVisible grp' (children grp' ! i) \<longleftrightarrow> sv_group (surface lv)))"
  using assms
  by (auto simp add: applyVisibility_at effectivelyVisible_def spec_surfaceVisible_def
        isSubVisible_def surfaceLookup_def orStr_def)

theorem surface_child_visibility_witness:
  "(\<exists>grp'. applyVisibility footwayOff [''surface'' \<mapsto> surfaceMeshes] ''surface'' = Some grp'
          \<and> \<not> effectivelyVisible grp' (children grp' ! 0)
          \<and> effectivelyVisible grp' (children grp' ! 1)
          \<and> effectivelyVisible grp' (children grp' ! 2)
          \<and> effectivelyVisible grp' (children grp' ! 3))
   \<and> (\<exists>grp'. applyVisibility groupOff [''surface'' \<mapsto> surfaceMeshes] ''surface'' = Some grp'
          \<and> \<not> effectivelyVisible grp' (children grp' ! 0)
          \<and> \<not> effectivelyVisible grp' (children grp' ! 1))"
proof -
  let ?groups = "[''surface'' \<mapsto> surfaceMeshes]"
  have present: "?groups ''surface'' = Some surfaceMeshes"
    by simp
  have index: "0 < length (children surfaceMeshes)" "1 < length (children surfaceMeshes)"
    "2 < length (children surfaceMeshes)" "3 < length (children surfaceMeshes)"
    by (simp_all add: surfaceMeshes_def)
  have subtype: "userData_subtype (children surfaceMeshes ! 0) = Some ''footway''"
    "userData_subtype (children surfaceMeshes ! 1) = Some ''water''"
    "userData_subtype (children surfaceMeshes ! 2) = Some ''plaza''"
    "userData_subtype (children surfaceMeshes ! 3) = None"
    by (simp_all add: surfaceMeshes_def)
  have shown: "\<not> spec_surfaceVisible footwayOff ''footway''"
    "spec_surfaceVisible footwayOff ''water''"
    "spec_surfaceVisible footwayOff ''plaza''"
    "spec_surfaceVisible footwayOff ''default''"
    by (simp_all add: spec_surfaceVisible_def footwayOff_def)
  have hidden: "\<not> spec_surfaceVisible groupOff ''footway''"
    "\<not> spec_surfaceVisible groupOff ''water''"
    by (simp_all add: spec_surfaceVisible_def groupOff_def)
  note t = surface_child_visibility [where groups = ?groups and grp = surfaceMeshes, OF present]
  from t [OF index(1), of footwayOff] subtype(1) shown(1)
  obtain g where g: "applyVisibility footwayOff ?groups ''surface'' = Some g"
    and g0: "\<not> effectivelyVisible g (children g ! 0)"
    by auto
  from t [OF index(2), of footwayOff] subtype(2) shown(2) g
  have g1: "effectivelyVisible g (children g ! 1)"
    by auto
  from t [OF index(3), of footwayOff] subtype(3) shown(3) g
  have g2: "effectivelyVisible g (children g ! 2)"
    by auto
  from t [OF index(4), of footwayOff] subtype(4) shown(4) g
  have g3: "effectivelyVisible g (children g ! 3)"
    by auto
  from t [OF index(1), of groupOff] subtype(1) hidden(1)
  obtain h where h: "applyVisibility groupOff ?groups ''surface'' = Some h"
    and h0: "\<not> effectivelyVisible h (children h ! 0)"
    by auto
  from t [OF index(2), of groupOff] subtype(2) hidden(2) h
  have h1: "\<not> effectivelyVisible h (children h ! 1)"
    by auto
  from g g0 g1 g2 g3 h h0 h1 show ?thesis by blast
qed

text \<open>
  C7. Clicking the eye button of a layer twice gives back the visibility state, the
  subtype flags of the surface layer included, which the button never touches. After the
  first click of a layer that was shown nothing of that layer is drawn; after the second
  the layer table, and with it the drawn primitives of every layer, is what it was.
  The visibility effect changes flags only: every layer keeps its key and its children
  with their subtypes and geometry.
\<close>

theorem toggle_roundtrip:
  "toggleLayer (toggleLayer lv L) L = lv
   \<and> sv_subtypes (surface (toggleLayer lv L)) = sv_subtypes (surface lv)
   \<and> (layerFlag lv L \<longrightarrow>
        visiblePrimitives (applyVisibility (toggleLayer lv L) groups) (layerKey L) = [])
   \<and> applyVisibility (toggleLayer (toggleLayer lv L) L)
        (applyVisibility (toggleLayer lv L) (applyVisibility lv groups))
      = applyVisibility lv groups
   \<and> (\<forall>key. visiblePrimitives
               (applyVisibility (toggleLayer (toggleLayer lv L) L)
                  (applyVisibility (toggleLayer lv L) (applyVisibility lv groups))) key
             = visiblePrimitives (applyVisibility lv groups) key)
   \<and> (\<forall>key. layerGeometry (applyVisibility lv groups) key = layerGeometry groups key)
   \<and> dom (applyVisibility lv groups) = dom groups"
proof -
  have subs: "sv_subtypes (surface (toggleLayer lv L)) = sv_subtypes (surface lv)"
    by (cases L) simp_all
  have hide: "layerFlag lv L \<longrightarrow>
        visiblePrimitives (applyVisibility (toggleLayer lv L) groups) (layerKey L) = []"
    using toggleLayer_hides [of lv L groups] by blast
  have restored: "applyVisibility (toggleLayer (toggleLayer lv L) L)
        (applyVisibility (toggleLayer lv L) (applyVisibility lv groups))
      = applyVisibility lv groups"
    by (simp only: toggleLayer_twice applyVisibility_absorb)
  show ?thesis
    using subs hide restored
    by (simp add: toggleLayer_twice applyVisibility_geometry applyVisibility_dom)
qed

theorem toggle_roundtrip_witness:
  "layerFlag
     \<lparr>buildings = True,
      surface = \<lparr>sv_group = True, sv_subtypes = [''footway'' \<mapsto> False]\<rparr>,
      vegetation = True, infrastructure = True, barriers = True, topography = True\<rparr>
     Surface
   \<and> visiblePrimitives
       (applyVisibility
          (toggleLayer
             \<lparr>buildings = True,
              surface = \<lparr>sv_group = True, sv_subtypes = [''footway'' \<mapsto> False]\<rparr>,
              vegetation = True, infrastructure = True, barriers = True, topography = True\<rparr>
             Surface)
          [''surface'' \<mapsto>
             \<lparr>group_visible = True,
              children = [\<lparr>userData_subtype = Some ''water'', child_visible = True,
                           child_geometry = 3\<rparr>]\<rparr>])
       (layerKey Surface) = []"
proof -
  let ?lv = "\<lparr>buildings = True,
      surface = \<lparr>sv_group = True, sv_subtypes = [''footway'' \<mapsto> False]\<rparr>,
      vegetation = True, infrastructure = True, barriers = True, topography = True\<rparr>"
  have shown: "layerFlag ?lv Surface"
    by (simp add: layerFlag_def)
  from shown toggle_roundtrip [of ?lv Surface]
  show ?thesis by blast
qed

section \<open>Verification: map-tile underlay\<close>


























section \<open>Verification: solar path\<close>

lemma pathLoop_past: "h > 20 \<Longrightarrow> pathLoop pos h acc = acc"
  by (subst pathLoop.simps) simp

lemma pathLoop_step:
  "h \<le> 20 \<Longrightarrow> pathLoop pos h acc
     = pathLoop pos (h + 0.25) (if altitude (pos h) > - 0.1 then acc @ [h] else acc)"
  by (subst pathLoop.simps) simp

lemma pathLoop_from:
  "pathLoop pos (20 - real n / 4) acc
     = acc @ filter (\<lambda>h. altitude (pos h) > - 0.1) (map (\<lambda>k. 20 - real n / 4 + real k / 4) [0..<Suc n])"
proof (induction n arbitrary: acc)
  case 0
  have "pathLoop pos 20 acc = pathLoop pos (20 + 0.25) (if altitude (pos 20) > - 0.1 then acc @ [20] else acc)"
    by (rule pathLoop_step) simp
  also have "\<dots> = (if altitude (pos 20) > - 0.1 then acc @ [20] else acc)"
    by (rule pathLoop_past) simp
  finally show ?case by simp
next
  case (Suc n)
  let ?h = "20 - real (Suc n) / 4"
  let ?P = "\<lambda>h. altitude (pos h) > - 0.1"
  have le: "?h \<le> 20" by simp
  have nxt: "?h + 0.25 = 20 - real n / 4" by (simp add: field_simps)
  have shift: "map (\<lambda>k. ?h + real k / 4) [0..<Suc (Suc n)]
        = ?h # map (\<lambda>k. 20 - real n / 4 + real k / 4) [0..<Suc n]"
  proof -
    have "[0..<Suc (Suc n)] = 0 # map Suc [0..<Suc n]"
      by (simp only: upt_conv_Cons [of 0 "Suc (Suc n)"] map_Suc_upt)
    then have "map (\<lambda>k. ?h + real k / 4) [0..<Suc (Suc n)]
        = ?h # map (\<lambda>k. ?h + real (Suc k) / 4) [0..<Suc n]"
      by (simp add: comp_def del: upt_Suc)
    moreover have "?h + real (Suc k) / 4 = 20 - real n / 4 + real k / 4" for k
      by (simp add: field_simps)
    ultimately show ?thesis by (simp del: upt_Suc)
  qed
  have "pathLoop pos ?h acc = pathLoop pos (?h + 0.25) (if ?P ?h then acc @ [?h] else acc)"
    by (rule pathLoop_step [OF le])
  also have "\<dots> = (if ?P ?h then acc @ [?h] else acc)
        @ filter ?P (map (\<lambda>k. 20 - real n / 4 + real k / 4) [0..<Suc n])"
    unfolding nxt by (rule Suc.IH)
  also have "\<dots> = acc @ filter ?P (map (\<lambda>k. ?h + real k / 4) [0..<Suc (Suc n)])"
    unfolding shift by simp
  finally show ?case .
qed

lemma pathLoop_samples:
  "pathLoop pos 4 [] = filter (\<lambda>h. altitude (pos h) > - 0.1) sampleHours"
  using pathLoop_from [of pos 64 "[]"] by (simp add: sampleHours_def)

lemma solarPathEffect_group:
  assumes sc: "scene st = Some sc" and mg: "meshGroup st = Some mg"
  shows "solarHelperRef (solarPathEffect getPosition True timeOfDay (Some (lat, lon)) st)
           = Some (nextId st)
         \<and> objects (solarPathEffect getPosition True timeOfDay (Some (lat, lon)) st) (nextId st)
             = Some \<lparr>visible = True,
                      parts = [CompassGroup ([Ring, Ring, Ring] @ [CardinalLine, CardinalLine]
                                             @ map Label [''N'', ''S'', ''E'', ''W''])]
                              @ (if length (pathLoop (sunAt getPosition lat lon) 4 []) > 1
                                 then [PathLine (pathLoop (sunAt getPosition lat lon) 4 [])]
                                 else [])
                              @ [SunBall, Beam]\<rparr>
         \<and> scene (solarPathEffect getPosition True timeOfDay (Some (lat, lon)) st)
             = Some ((case solarHelperRef st of None \<Rightarrow> sc | Some h \<Rightarrow> removeAll h sc)
                     @ [nextId st])"
  by (simp add: solarPathEffect_def sc mg Let_def addToScene_def removeFromScene_def
        split: option.split)

text \<open>
  C4, the claim as stated fails: a sample whose altitude is exactly the cutoff of
  -0.1 rad is at or above it, and the loop, which tests \<open>altitude > -0.1\<close>, drops it.
\<close>

theorem solar_cutoff_counterexample:
  "altitude (sunAt cutoffSun 0 0 4) \<ge> - 0.1
   \<and> 4 \<in> set sampleHours
   \<and> 4 \<notin> set (pathLoop (sunAt cutoffSun 0 0) 4 [])"
proof -
  have alt: "altitude (sunAt cutoffSun 0 0 h) = - 0.1" for h
    by (simp add: sunAt_def cutoffSun_def clockOf_def)
  have "4 + real 0 / 4 \<in> (\<lambda>k. 4 + real k / 4) ` set [0..<65]"
    by (rule imageI) simp
  then have mem: "4 \<in> set sampleHours"
    by (simp add: sampleHours_def)
  have "pathLoop (sunAt cutoffSun 0 0) 4 [] = []"
    by (simp add: pathLoop_samples alt)
  with alt mem show ?thesis by simp
qed

text \<open>
  C4, amended. The arc is sampled at the 65 hours 4:00, 4:15, ..., 20:00, and the kept
  samples are, in order, exactly those whose altitude is strictly above -0.1 rad. The
  helper group holds the arc as a line through the kept samples when more than one was
  kept, and no arc otherwise.
\<close>

theorem solar_path_samples:
  "pathLoop pos 4 [] = filter (\<lambda>h. altitude (pos h) > - 0.1) sampleHours
   \<and> (scene st = Some sc \<and> meshGroup st = Some mg \<longrightarrow>
        objects (solarPathEffect getPosition True timeOfDay (Some (lat, lon)) st) (nextId st)
          = Some \<lparr>visible = True,
                   parts = [CompassGroup ([Ring, Ring, Ring] @ [CardinalLine, CardinalLine]
                                          @ map Label [''N'', ''S'', ''E'', ''W''])]
                           @ (if length (filter (\<lambda>h. altitude (sunAt getPosition lat lon h) > - 0.1)
                                           sampleHours) > 1
                              then [PathLine (filter (\<lambda>h. altitude (sunAt getPosition lat lon h) > - 0.1)
                                                sampleHours)]
                              else [])
                           @ [SunBall, Beam]\<rparr>)"
  using solarPathEffect_group [of st sc mg getPosition timeOfDay lat lon]
  by (simp add: pathLoop_samples)

theorem solar_path_samples_witness:
  "scene (sceneEffect [(0, 0, 0), (100, 10, 50)] (800, 600) initialViewer) = Some []
   \<and> objects (solarPathEffect cutoffSun True 12 (Some (0, 0))
               (sceneEffect [(0, 0, 0), (100, 10, 50)] (800, 600) initialViewer)) 0
       = Some \<lparr>visible = True,
                parts = [CompassGroup [Ring, Ring, Ring, CardinalLine, CardinalLine,
                                       Label ''N'', Label ''S'', Label ''E'', Label ''W''],
                         SunBall, Beam]\<rparr>"
proof -
  let ?st = "sceneEffect [(0, 0, 0), (100, 10, 50)] (800, 600) initialViewer"
  have sc: "scene ?st = Some []"
    by (simp add: sceneEffect_def)
  have mg: "meshGroup ?st = Some [(0, 0, 0), (100, 10, 50)]"
    by (simp add: sceneEffect_def)
  have nx: "nextId ?st = 0"
    by (simp add: sceneEffect_def initialViewer_def)
  have alt: "altitude (sunAt cutoffSun 0 0 h) = - 0.1" for h
    by (simp add: sunAt_def cutoffSun_def clockOf_def)
  from sc mg
    solar_path_samples [of "sunAt cutoffSun 0 0" ?st "[]" "[(0, 0, 0), (100, 10, 50)]"
      cutoffSun 12 0 0]
  show ?thesis
    by (simp add: nx alt)
qed

section \<open>Verification: climate requests and scene generations\<close>

text \<open>
  C2, the claim as stated fails: the request of the first load, issued for generation 1,
  is answered when generation 2 is current, and its data becomes the climate state.
\<close>

theorem stale_climate_counterexample:
  "issuedFor (pendingFetches reloadedViewer ! 0) = 1
   \<and> sceneGeneration reloadedViewer = 2
   \<and> climateData reloadedViewer = None
   \<and> climateData (climateResolved 0 (Some sampleClimate) reloadedViewer) = Some sampleClimate"
  by (simp add: reloadedViewer_def loadGeometry_def sceneEffect_def climateFetchEffect_def
        initialViewer_def climateResolved_def Let_def)

text \<open>
  C2, amended. The callback of a climate request looks at the data only: data that is
  not null becomes the climate state whatever the scene generation is and whatever
  generation the request was issued for, and null leaves the climate state as it is.
  The scene generation is raised by one on every geometry load and by nothing else here.
\<close>

theorem climate_result_populates:
  "(i < length (pendingFetches st) \<longrightarrow>
      climateData (climateResolved i (Some d) st) = Some d
      \<and> climateData (climateResolved i None st) = climateData st)
   \<and> sceneGeneration (climateResolved i data st) = sceneGeneration st
   \<and> sceneGeneration (loadGeometry origin vertices clientSize st) = sceneGeneration st + 1"
  by (cases data)
     (simp_all add: climateResolved_def Let_def loadGeometry_def sceneEffect_def
        climateFetchEffect_def split: option.split prod.split)

theorem climate_result_populates_witness:
  "0 < length (pendingFetches reloadedViewer)
   \<and> issuedFor (pendingFetches reloadedViewer ! 0) < sceneGeneration reloadedViewer
   \<and> climateData (climateResolved 0 (Some sampleClimate) reloadedViewer) = Some sampleClimate"
proof -
  have pending: "0 < length (pendingFetches reloadedViewer)"
    by (simp add: reloadedViewer_def loadGeometry_def sceneEffect_def climateFetchEffect_def
          initialViewer_def)
  have stale: "issuedFor (pendingFetches reloadedViewer ! 0) < sceneGeneration reloadedViewer"
    by (simp add: reloadedViewer_def loadGeometry_def sceneEffect_def climateFetchEffect_def
          initialViewer_def)
  from pending stale climate_result_populates [of 0 reloadedViewer sampleClimate]
  show ?thesis by blast
qed

section \<open>Verification: overlays on a scene without geometry\<close>

lemma sunEffect_addsNoNode:
  "addsNoNode st (sunEffect getPosition isSunStudyEnabled showDefaultShadows timeOfDay origin st)"
  by (auto simp add: addsNoNode_def sunEffect_def Let_def split: option.splits prod.splits)

lemma mapUnderlayEffect_empty:
  "meshGroup st = Some [] \<Longrightarrow> addsNoNode st (mapUnderlayEffect showMapUnderlay origin st)"
  by (auto simp add: addsNoNode_def mapUnderlayEffect_def setFromObject_def Let_def
        removeFromScene_def split: option.splits prod.splits)

lemma mapUnderlayEffect_no_origin:
  "addsNoNode st (mapUnderlayEffect showMapUnderlay None st)"
  by (auto simp add: addsNoNode_def mapUnderlayEffect_def split: option.splits prod.splits)

lemma length_grid: "length (concat (map (\<lambda>i. map (g i) [0..<m]) xs)) = length xs * m"
  by (induction xs) simp_all

lemma solarPathEffect_no_origin:
  "addsNoNode st (solarPathEffect getPosition showSolarPath timeOfDay None st)"
  by (auto simp add: addsNoNode_def solarPathEffect_def Let_def removeFromScene_def
        split: option.splits prod.splits)

text \<open>
  C3, the code at the failing input. The preview is open on a payload with an origin and
  no mesh, so the bounding box is empty and the scene holds no helper. The map underlay
  stops at its \<open>isEmpty\<close> check and the sun effect only moves the light; but the
  solar-path effect and the wind effect have no such check: each builds its helper group
  (the compass, the sun ball and the beam; 36 arrows) and adds it to the scene.
\<close>

theorem overlays_on_empty_scene:
  "meshGroup emptySceneViewer = Some []
   \<and> isEmpty (setFromObject [])
   \<and> scene emptySceneViewer = Some []
   \<and> addsNoNode emptySceneViewer (mapUnderlayEffect True (Some (48.85, 2.35)) emptySceneViewer)
   \<and> addsNoNode emptySceneViewer (sunEffect cutoffSun True True 12 (Some (48.85, 2.35)) emptySceneViewer)
   \<and> scene (solarPathEffect cutoffSun True 12 (Some (48.85, 2.35)) emptySceneViewer) = Some [0]
   \<and> objects (solarPathEffect cutoffSun True 12 (Some (48.85, 2.35)) emptySceneViewer) 0
       = Some \<lparr>visible = True,
                parts = [CompassGroup [Ring, Ring, Ring, CardinalLine, CardinalLine,
                                       Label ''N'', Label ''S'', Label ''E'', Label ''W''],
                         SunBall, Beam]\<rparr>
   \<and> \<not> addsNoNode emptySceneViewer
         (solarPathEffect cutoffSun True 12 (Some (48.85, 2.35)) emptySceneViewer)
   \<and> scene emptySceneWithClimate = Some []
   \<and> scene (windEffect True 12 emptySceneWithClimate) = Some [0]
   \<and> map_option (length \<circ> parts) (objects (windEffect True 12 emptySceneWithClimate) 0) = Some 36
   \<and> \<not> addsNoNode emptySceneWithClimate (windEffect True 12 emptySceneWithClimate)"
proof -
  have mg: "meshGroup emptySceneViewer = Some []"
    and sc: "scene emptySceneViewer = Some []"
    and nx: "nextId emptySceneViewer = 0"
    and ref: "solarHelperRef emptySceneViewer = None"
    by (simp_all add: emptySceneViewer_def loadGeometry_def sceneEffect_def
          climateFetchEffect_def initialViewer_def)
  have emp: "isEmpty (setFromObject [])"
    by (simp add: setFromObject_def)
  have alt: "altitude (sunAt cutoffSun lat lon h) = - 0.1" for lat lon h
    by (simp add: sunAt_def cutoffSun_def clockOf_def)
  have path: "pathLoop (sunAt cutoffSun lat lon) 4 [] = []" for lat lon
    by (simp add: pathLoop_samples alt)
  note grp = solarPathEffect_group [OF sc mg, of cutoffSun 12 "48.85" "2.35"]
  have solarScene: "scene (solarPathEffect cutoffSun True 12 (Some (48.85, 2.35)) emptySceneViewer)
                    = Some [0]"
    using grp by (simp add: nx ref)
  have solarObj: "objects (solarPathEffect cutoffSun True 12 (Some (48.85, 2.35)) emptySceneViewer) 0
       = Some \<lparr>visible = True,
                parts = [CompassGroup [Ring, Ring, Ring, CardinalLine, CardinalLine,
                                       Label ''N'', Label ''S'', Label ''E'', Label ''W''],
                         SunBall, Beam]\<rparr>"
    using grp by (simp add: nx path)
  have solarAdds: "\<not> addsNoNode emptySceneViewer
         (solarPathEffect cutoffSun True 12 (Some (48.85, 2.35)) emptySceneViewer)"
    using sc solarScene by (simp add: addsNoNode_def)
  have csc: "scene emptySceneWithClimate = Some []"
    by (simp add: emptySceneWithClimate_def emptySceneViewer_def loadGeometry_def
          sceneEffect_def climateFetchEffect_def initialViewer_def climateResolved_def Let_def)
  have windScene: "scene (windEffect True 12 emptySceneWithClimate) = Some [0]"
    by (simp add: windEffect_def emptySceneWithClimate_def emptySceneViewer_def
          loadGeometry_def sceneEffect_def climateFetchEffect_def initialViewer_def
          climateResolved_def Let_def addToScene_def removeFromScene_def)
  have windObj: "map_option (length \<circ> parts) (objects (windEffect True 12 emptySceneWithClimate) 0)
                 = Some 36"
    by (simp add: windEffect_def emptySceneWithClimate_def emptySceneViewer_def
          loadGeometry_def sceneEffect_def climateFetchEffect_def initialViewer_def
          climateResolved_def Let_def addToScene_def removeFromScene_def length_grid)
  have windAdds: "\<not> addsNoNode emptySceneWithClimate (windEffect True 12 emptySceneWithClimate)"
    using csc windScene by (simp add: addsNoNode_def)
  from mg emp sc mapUnderlayEffect_empty [OF mg] sunEffect_addsNoNode
    solarScene solarObj solarAdds csc windScene windObj windAdds
  show ?thesis by blast
qed

section \<open>Verification: render capture\<close>

lemma objects_of_hidden:
  "objects (setHelperVisible r b st) h =
     (if r = Some h then map_option (\<lambda>obj. obj\<lparr>visible := b\<rparr>) (objects st h) else objects st h)"
  by (cases r) (auto simp: setHelperVisible_def split: option.splits)

lemma setHelperVisible_frame:
  "scene (setHelperVisible r b st) = scene st"
  "meshGroup (setHelperVisible r b st) = meshGroup st"
  "nextId (setHelperVisible r b st) = nextId st"
  "solarHelperRef (setHelperVisible r b st) = solarHelperRef st"
  "windHelperRef (setHelperVisible r b st) = windHelperRef st"
  "mapGroupRef (setHelperVisible r b st) = mapGroupRef st"
  "sunLightRef (setHelperVisible r b st) = sunLightRef st"
  "background (setHelperVisible r b st) = background st"
  "consoleWarnings (setHelperVisible r b st) = consoleWarnings st"
  "rendererSize (setHelperVisible r b st) = rendererSize st"
  "cameraAspect (setHelperVisible r b st) = cameraAspect st"
  "sceneGeneration (setHelperVisible r b st) = sceneGeneration st"
  "climateData (setHelperVisible r b st) = climateData st"
  "pendingFetches (setHelperVisible r b st) = pendingFetches st"
  by (cases r; simp add: setHelperVisible_def split: option.splits)+

lemma setHelperVisible_eq:
  "setHelperVisible r b st = st\<lparr>objects := objects (setHelperVisible r b st)\<rparr>"
  by (cases r) (auto simp: setHelperVisible_def split: option.splits)

lemma restoreHelper_eq:
  "restoreHelper r w st = st\<lparr>objects := objects (restoreHelper r w st)\<rparr>"
  by (cases w) (auto simp: restoreHelper_def setHelperVisible_eq [symmetric])

lemma objects_of_restored:
  "objects (restoreHelper r w st) h =
     (case w of None \<Rightarrow> objects st h
      | Some b \<Rightarrow> if r = Some h then map_option (\<lambda>obj. obj\<lparr>visible := b\<rparr>) (objects st h) else objects st h)"
  by (cases w) (simp_all add: restoreHelper_def objects_of_hidden)

lemma handleRender_restores:
  assumes sz: "rendererSize st = Some sz" and asp: "cameraAspect st = Some a"
  shows "fst (handleRender True (Captured d) gen (st, ui)) = st"
proof -
  let ?ws = "helperVisible (solarHelperRef st) st"
  let ?ww = "helperVisible (windHelperRef st) st"
  let ?st1 = "setHelperVisible (windHelperRef st) False (setHelperVisible (solarHelperRef st) False st)"
  let ?st3 = "?st1\<lparr>rendererSize := Some (1376, 768), cameraAspect := Some (1376 / 768)\<rparr>
               \<lparr>rendererSize := Some sz, cameraAspect := Some a\<rparr>"
  let ?st4 = "restoreHelper (windHelperRef ?st3) ?ww (restoreHelper (solarHelperRef ?st3) ?ws ?st3)"
  have run: "fst (handleRender True (Captured d) gen (st, ui)) = ?st4"
    by (cases gen) (simp_all add: handleRender_def sz asp Let_def setHelperVisible_frame)
  have st3: "?st3 = st\<lparr>objects := objects ?st1\<rparr>"
    using sz asp
    by (subst setHelperVisible_eq, subst (2) setHelperVisible_eq) (simp add: setHelperVisible_frame)
  have obj: "objects ?st4 h = objects st h" for h
    by (cases "objects st h")
       (auto simp add: objects_of_restored objects_of_hidden helperVisible_def
          setHelperVisible_frame split: option.splits)
  have "?st4 = ?st3\<lparr>objects := objects ?st4\<rparr>"
    by (subst restoreHelper_eq, subst (2) restoreHelper_eq) simp
  also have "\<dots> = st\<lparr>objects := objects ?st4\<rparr>"
    by (subst st3) simp
  also have "objects ?st4 = objects st"
    using obj by blast
  finally show ?thesis
    using run by simp
qed

text \<open>
  When the capture itself succeeds, the renderer size, the camera aspect and the helper
  flags are put back before the downstream call, so the viewer is what it was whatever
  that call answers.
\<close>

lemma handleRender_downstream_outcome:
  assumes "rendererSize st = Some sz" and "cameraAspect st = Some a"
  shows "fst (handleRender True (Captured d) (GenSuccess url) (st, ui)) = st
         \<and> fst (handleRender True (Captured d) (GenError err) (st, ui)) = st
         \<and> fst (handleRender True (Captured d) (GenRejects msg) (st, ui)) = st"
  using assms by (simp add: handleRender_restores)

text \<open>
  C9, the code at the failing input. The solar path is shown and the canvas is 800 by
  600. The capture raises between the resize and the restore: the \<open>catch\<close> stores the
  message and the \<open>finally\<close> clears \<open>isRendering\<close>, but the statements that restore
  were skipped, so the solar helper stays hidden and the renderer and the camera keep
  the capture size 1376 by 768.
\<close>

theorem capture_failure_not_restored:
  "solarHelperRef solarPathViewer = Some 0
   \<and> helperVisible (Some 0) solarPathViewer = Some True
   \<and> rendererSize solarPathViewer = Some (800, 600)
   \<and> cameraAspect solarPathViewer = Some (800 / 600)
   \<and> helperVisible (Some 0)
         (fst (handleRender True (CaptureRaises ''capture failed'') (GenSuccess ''url'')
                 (solarPathViewer, initialUi))) = Some False
   \<and> rendererSize
         (fst (handleRender True (CaptureRaises ''capture failed'') (GenSuccess ''url'')
                 (solarPathViewer, initialUi))) = Some (1376, 768)
   \<and> cameraAspect
         (fst (handleRender True (CaptureRaises ''capture failed'') (GenSuccess ''url'')
                 (solarPathViewer, initialUi))) = Some (1376 / 768)
   \<and> snd (handleRender True (CaptureRaises ''capture failed'') (GenSuccess ''url'')
              (solarPathViewer, initialUi))
       = initialUi\<lparr>renderError := Some ''capture failed'', activeTab := RenderTab\<rparr>
   \<and> fst (handleRender True (CaptureRaises ''capture failed'') (GenSuccess ''url'')
              (solarPathViewer, initialUi)) \<noteq> solarPathViewer"
proof -
  let ?out = "handleRender True (CaptureRaises ''capture failed'') (GenSuccess ''url'')
                (solarPathViewer, initialUi)"
  have before: "solarHelperRef solarPathViewer = Some 0
     \<and> helperVisible (Some 0) solarPathViewer = Some True
     \<and> rendererSize solarPathViewer = Some (800, 600)
     \<and> cameraAspect solarPathViewer = Some (800 / 600)"
    by (simp add: solarPathViewer_def solarPathEffect_def sceneEffect_def initialViewer_def
          Let_def addToScene_def removeFromScene_def helperVisible_def)
  have after: "helperVisible (Some 0) (fst ?out) = Some False
     \<and> rendererSize (fst ?out) = Some (1376, 768)
     \<and> cameraAspect (fst ?out) = Some (1376 / 768)
     \<and> snd ?out = initialUi\<lparr>renderError := Some ''capture failed'', activeTab := RenderTab\<rparr>"
    by (simp add: handleRender_def solarPathViewer_def solarPathEffect_def sceneEffect_def
          initialViewer_def Let_def addToScene_def removeFromScene_def helperVisible_def
          setHelperVisible_def initialUi_def)
  have "rendererSize (fst ?out) \<noteq> rendererSize solarPathViewer"
    using before after by simp
  then have "fst ?out \<noteq> solarPathViewer"
    by auto
  with before after show ?thesis by blast
qed


end
